theory Spec2Isabelle
  imports Complex_Main "HOL-Library.Word"
begin

section \<open>JavaScript values and errors\<close>

text \<open>
  A JavaScript \<^verbatim>\<open>number\<close> is NaN, an infinity or a finite value; the finite doubles are
  rationals, and the code below only compares numbers, so a finite number is kept as the
  rational it denotes. An optional or missing value (\<^verbatim>\<open>undefined\<close>, \<^verbatim>\<open>null\<close>) is \<open>None\<close>.
\<close>

datatype jsnum = NaN | PosInf | NegInf | Fin rat

fun js_lt :: "jsnum \<Rightarrow> jsnum \<Rightarrow> bool" where
  "js_lt NaN b = False"
| "js_lt a NaN = False"
| "js_lt PosInf b = False"
| "js_lt a NegInf = False"
| "js_lt NegInf b = True"
| "js_lt a PosInf = True"
| "js_lt (Fin x) (Fin y) = (x < y)"

fun js_le :: "jsnum \<Rightarrow> jsnum \<Rightarrow> bool" where
  "js_le NaN b = False"
| "js_le a NaN = False"
| "js_le NegInf b = True"
| "js_le a PosInf = True"
| "js_le PosInf b = False"
| "js_le a NegInf = False"
| "js_le (Fin x) (Fin y) = (x \<le> y)"

definition js_gt :: "jsnum \<Rightarrow> jsnum \<Rightarrow> bool" where
  "js_gt a b = js_lt b a"

definition isNaN :: "jsnum \<Rightarrow> bool" where
  "isNaN a = (a = NaN)"

text \<open>Truthiness of a string, as \<^verbatim>\<open>if (x)\<close>, \<^verbatim>\<open>!x\<close> and \<^verbatim>\<open>x && y\<close> read it.\<close>

definition truthy_str :: "string option \<Rightarrow> bool" where
  "truthy_str v = (case v of None \<Rightarrow> False | Some s \<Rightarrow> s \<noteq> [])"

text \<open>A value spliced into a template literal: \<^verbatim>\<open>`${v}`\<close>.\<close>

definition template :: "string option \<Rightarrow> string" where
  "template v = (case v of None \<Rightarrow> ''undefined'' | Some s \<Rightarrow> s)"

text \<open>
  The error classes of \<^verbatim>\<open>types.ts\<close> and \<^verbatim>\<open>validation.ts\<close>, with the built-in ones the
  code can raise. \<open>AgentPayError message code statusCode\<close>; its subclasses fix the code
  and the status code in their constructors.
\<close>

datatype js_error =
    Error string
  | TypeError string
  | RangeError string
  | ValidationError string
  | AgentPayError string string "int option"
  | RateLimitError string jsnum jsnum jsnum
  | AuthenticationError string
  | InvalidTransactionError string string
  | MandateError string string

fun error_statusCode :: "js_error \<Rightarrow> int option" where
  "error_statusCode (AgentPayError m c sc) = sc"
| "error_statusCode (RateLimitError m r l k) = Some 429"
| "error_statusCode (AuthenticationError m) = Some 401"
| "error_statusCode (InvalidTransactionError m r) = Some 400"
| "error_statusCode (MandateError m r) = Some 400"
| "error_statusCode e = None"

text \<open>Statements in sequence: the first one that throws ends the run.\<close>

fun and_then :: "js_error + unit \<Rightarrow> js_error + unit \<Rightarrow> js_error + unit" where
  "and_then (Inl e) r = Inl e"
| "and_then (Inr u) r = r"

section \<open>Validation utilities (utils/validation.ts)\<close>

definition SUPPORTED_CHAINS :: "string list" where
  "SUPPORTED_CHAINS = [''ethereum'', ''base'', ''polygon'', ''arbitrum'']"

definition SUPPORTED_TOKENS :: "string list" where
  "SUPPORTED_TOKENS = [''USDC'', ''USDT'', ''DAI'']"

definition validateChain :: "string \<Rightarrow> js_error + unit" where
  "validateChain chain =
     (if chain \<notin> set SUPPORTED_CHAINS
      then Inl (ValidationError (''Unsupported chain: '' @ chain @
             ''. Supported chains: ethereum, base, polygon, arbitrum''))
      else Inr ())"

definition validateToken :: "string \<Rightarrow> js_error + unit" where
  "validateToken token =
     (if token \<notin> set SUPPORTED_TOKENS
      then Inl (ValidationError (''Unsupported token: '' @ token @
             ''. Supported tokens: USDC, USDT, DAI''))
      else Inr ())"

text \<open>\<open>numToString\<close> is JavaScript's conversion of a number to text, a parameter.\<close>

definition validateAmount :: "(jsnum \<Rightarrow> string) \<Rightarrow> jsnum \<Rightarrow> string \<Rightarrow> js_error + unit" where
  "validateAmount numToString amount fieldName =
     (if isNaN amount \<or> js_le amount (Fin 0)
      then Inl (ValidationError (fieldName @ '' must be a positive number, got: '' @
             numToString amount))
      else Inr ())"

text \<open>\<^verbatim>\<open>token.split('.')\<close>: the pieces between the separators, empty ones included.\<close>

fun split_on :: "char \<Rightarrow> string \<Rightarrow> string list" where
  "split_on c [] = [[]]"
| "split_on c (x # xs) =
     (if x = c then [] # split_on c xs
      else (case split_on c xs of [] \<Rightarrow> [[x]] | p # ps \<Rightarrow> (x # p) # ps))"

definition validateMandateToken :: "string option \<Rightarrow> js_error + unit" where
  "validateMandateToken token =
     (if \<not> truthy_str token \<or> length (template token) < 10
      then Inl (ValidationError ''Invalid mandate token'')
      else let parts = split_on (CHR ''.'') (template token) in
        if length parts \<noteq> 3
        then Inl (ValidationError
               ''Invalid mandate token format (expected JWT-like structure)'')
        else Inr ())"

definition is_hex_char :: "char \<Rightarrow> bool" where
  "is_hex_char c = (c \<in> set ''abcdefABCDEF0123456789'')"

text \<open>The regular expression \<^verbatim>\<open>/^0x[a-fA-F0-9]{64}$/\<close>.\<close>

definition txHashRegex_test :: "string \<Rightarrow> bool" where
  "txHashRegex_test s =
     (length s = 66 \<and> take 2 s = ''0x'' \<and> list_all is_hex_char (drop 2 s))"

definition validateTxHash :: "string option \<Rightarrow> js_error + unit" where
  "validateTxHash txHash =
     (if \<not> truthy_str txHash \<or> \<not> txHashRegex_test (template txHash)
      then Inl (ValidationError (''Invalid transaction hash: '' @ template txHash))
      else Inr ())"

definition validateRequired :: "string option \<Rightarrow> string \<Rightarrow> js_error + unit" where
  "validateRequired v fieldName =
     (if v = None \<or> v = Some []
      then Inl (ValidationError (fieldName @ '' is required''))
      else Inr ())"

section \<open>Webhooks module (modules/webhooks.ts)\<close>

text \<open>\<^verbatim>\<open>digest('hex')\<close>: two lowercase hexadecimal digits per byte.\<close>

definition hex_digit :: "nat \<Rightarrow> char" where
  "hex_digit n = ''0123456789abcdef'' ! (n mod 16)"

definition hex_byte :: "8 word \<Rightarrow> string" where
  "hex_byte b = [hex_digit (unat b div 16), hex_digit (unat b mod 16)]"

definition digest_hex :: "8 word list \<Rightarrow> string" where
  "digest_hex bs = concat (map hex_byte bs)"

text \<open>
  \<open>hmac secret payload\<close> stands for Node's
  \<^verbatim>\<open>createHmac('sha256', secret).update(payload).digest()\<close>, a parameter.
\<close>

definition verifySignature ::
  "(string \<Rightarrow> string \<Rightarrow> 8 word list) \<Rightarrow> string option \<Rightarrow> string option \<Rightarrow> string option
     \<Rightarrow> js_error + bool" where
  "verifySignature hmac payload signature secret =
     (case and_then (validateRequired payload ''payload'')
            (and_then (validateRequired signature ''signature'')
              (validateRequired secret ''secret'')) of
        Inl e \<Rightarrow> Inl e
      | Inr u \<Rightarrow>
          let expectedSignature = digest_hex (hmac (template secret) (template payload))
          in Inr (template signature = expectedSignature))"

text \<open>
  \<open>parse\<close> stands for \<^verbatim>\<open>JSON.parse\<close> (\<open>None\<close> when it throws). The second component of
  the result lists the texts handed to the parser, in order.
\<close>

definition verifyAndParse ::
  "(string \<Rightarrow> string \<Rightarrow> 8 word list) \<Rightarrow> (string \<Rightarrow> 'a option) \<Rightarrow> string option \<Rightarrow> string option
     \<Rightarrow> string option \<Rightarrow> (js_error + 'a) \<times> string list" where
  "verifyAndParse hmac parse payload signature secret =
     (case verifySignature hmac payload signature secret of
        Inl e \<Rightarrow> (Inl e, [])
      | Inr ok \<Rightarrow>
          if \<not> ok then (Inl (Error ''Invalid webhook signature''), [])
          else (case parse (template payload) of
                  None \<Rightarrow> (Inl (Error ''Invalid webhook payload JSON''), [template payload])
                | Some v \<Rightarrow> (Inr v, [template payload])))"

section \<open>The transport and the outside world\<close>

text \<open>
  The gateway, the clock and the client are outside the program. Every call that leaves
  it is recorded in the \<open>events\<close> of the world, in order, and \<open>calls\<close> counts the remote
  calls made so far, so that the answer of the outside may change from one call to the
  next: a transport maps the number of earlier calls and the request to its outcome
  (\<open>Inl\<close> is the error that \<^verbatim>\<open>HttpClient.handleError\<close> throws).
\<close>

datatype event =
    HttpGet string "(string \<times> string) list"
  | Sleep int
  | MandateVerify string
  | MandateIssue string rat string rat

record world =
  calls :: nat
  events :: "event list"

record 'a APIResponse =
  success :: bool
  data :: "'a option"
  statusCode :: int

type_synonym 'a transport =
  "nat \<Rightarrow> string \<Rightarrow> (string \<times> string) list \<Rightarrow> js_error + 'a APIResponse"

definition http_get ::
  "'a transport \<Rightarrow> string \<Rightarrow> (string \<times> string) list \<Rightarrow> world
     \<Rightarrow> (js_error + 'a APIResponse) \<times> world" where
  "http_get http url headers w =
     (http (calls w) url headers,
      w\<lparr>calls := Suc (calls w), events := events w @ [HttpGet url headers]\<rparr>)"

text \<open>\<^verbatim>\<open>await new Promise(resolve => setTimeout(resolve, ms))\<close>\<close>

definition sleep :: "int \<Rightarrow> world \<Rightarrow> world" where
  "sleep ms w = w\<lparr>events := events w @ [Sleep ms]\<rparr>"

section \<open>Payments module (modules/payments.ts)\<close>

datatype pay_status = Completed | Pending | Failed

text \<open>The fields of the resource answer that \<^verbatim>\<open>submitTxHash\<close> reads.\<close>

record resource_data =
  amount_usd :: "jsnum option"
  rd_budget_remaining :: "jsnum option"

record SubmitPaymentResponse =
  spr_success :: bool
  spr_status :: pay_status
  spr_txHash :: string
  spr_txHashCommission :: "string option"
  spr_amountUsd :: jsnum
  spr_budgetRemaining :: jsnum
  spr_resource :: "resource_data option"
  spr_error :: "string option"

text \<open>\<^verbatim>\<open>a || b || d\<close> on numbers: the first truthy operand, else the last one.\<close>

fun first_truthy :: "jsnum option list \<Rightarrow> jsnum \<Rightarrow> jsnum" where
  "first_truthy [] d = d"
| "first_truthy (None # xs) d = first_truthy xs d"
| "first_truthy (Some n # xs) d = (if n \<noteq> NaN \<and> n \<noteq> Fin 0 then n else first_truthy xs d)"

text \<open>
  \<^verbatim>\<open>JSON.stringify\<close> of a string that needs no escape, as the validated hashes are.
\<close>

definition json_string :: "string \<Rightarrow> string" where
  "json_string s = [CHR 0x22] @ s @ [CHR 0x22]"

text \<open>The validation statements that open \<^verbatim>\<open>submitTxHash\<close>, in their order.\<close>

definition submit_checks ::
  "(jsnum \<Rightarrow> string) \<Rightarrow> string option \<Rightarrow> string option \<Rightarrow> string option \<Rightarrow> string \<Rightarrow> string
     \<Rightarrow> jsnum option \<Rightarrow> js_error + unit" where
  "submit_checks numToString mandate txHash txHashCommission chain token priceUsd =
     and_then (validateRequired mandate ''mandate'')
    (and_then (validateRequired txHash ''txHash'')
    (and_then (validateMandateToken mandate)
    (and_then (validateTxHash txHash)
    (and_then (validateChain chain)
    (and_then (validateToken token)
    (and_then (if truthy_str txHashCommission then validateTxHash txHashCommission else Inr ())
              (case priceUsd of
                 None \<Rightarrow> Inr ()
               | Some p \<Rightarrow> validateAmount numToString p ''priceUsd'')))))))"

definition submitTxHash ::
  "(jsnum \<Rightarrow> string) \<Rightarrow> resource_data transport \<Rightarrow> string option \<Rightarrow> string option
     \<Rightarrow> string option \<Rightarrow> string option \<Rightarrow> string option \<Rightarrow> jsnum option \<Rightarrow> world
     \<Rightarrow> (js_error + SubmitPaymentResponse) \<times> world" where
  "submitTxHash numToString http mandate txHash txHashCommission chainArg tokenArg priceUsd w =
     (let chain = (case chainArg of None \<Rightarrow> ''base'' | Some c \<Rightarrow> c);
          token = (case tokenArg of None \<Rightarrow> ''USDC'' | Some t \<Rightarrow> t)
      in case submit_checks numToString mandate txHash txHashCommission chain token priceUsd of
        Inl e \<Rightarrow> (Inl e, w)
      | Inr u \<Rightarrow>
         (let paymentPayload =
                ''{'' @ json_string ''scheme'' @ '':'' @ json_string ''eip3009'' @ '','' @
                json_string ''tx_hash'' @ '':'' @ json_string (template txHash) @
                (if truthy_str txHashCommission
                 then '','' @ json_string ''tx_hash_commission'' @ '':'' @
                      json_string (template txHashCommission)
                 else []) @ ''}'';
              headers = [(''x-mandate'', template mandate), (''x-payment'', paymentPayload)];
              url = ''/x402/resource?chain='' @ chain @ ''&token='' @ token @
                (case priceUsd of None \<Rightarrow> [] | Some p \<Rightarrow> ''&price_usd='' @ numToString p)
          in case http_get http url headers w of
            (Inr response, w') \<Rightarrow>
              (Inr \<lparr>spr_success = True, spr_status = Completed,
                    spr_txHash = template txHash,
                    spr_txHashCommission = txHashCommission,
                    spr_amountUsd =
                      first_truthy
                        [case data response of None \<Rightarrow> None | Some d \<Rightarrow> amount_usd d, priceUsd]
                        (Fin 0),
                    spr_budgetRemaining =
                      first_truthy
                        [case data response of None \<Rightarrow> None | Some d \<Rightarrow> rd_budget_remaining d]
                        (Fin 0),
                    spr_resource = data response,
                    spr_error = None\<rparr>, w')
          | (Inl error, w') \<Rightarrow>
              (case error of
                 InvalidTransactionError m reason \<Rightarrow>
                   (Inr \<lparr>spr_success = False, spr_status = Failed,
                         spr_txHash = template txHash,
                         spr_txHashCommission = txHashCommission,
                         spr_amountUsd = Fin 0,
                         spr_budgetRemaining = Fin 0,
                         spr_resource = None,
                         spr_error = Some reason\<rparr>, w')
               | _ \<Rightarrow> (Inl error, w'))))"

text \<open>The fields of a verification record that the polling loop reads or returns.\<close>

record PaymentVerification =
  isValid :: bool
  pv_txHash :: string
  pv_status :: pay_status
  pv_error :: "string option"

definition verify ::
  "PaymentVerification transport \<Rightarrow> string option \<Rightarrow> world
     \<Rightarrow> (js_error + PaymentVerification) \<times> world" where
  "verify http txHash w =
     (case and_then (validateRequired txHash ''txHash'') (validateTxHash txHash) of
        Inl e \<Rightarrow> (Inl e, w)
      | Inr u \<Rightarrow>
         (case http_get http (''/v1/payments/verify/'' @ template txHash) [] w of
            (Inl e, w') \<Rightarrow> (Inl e, w')
          | (Inr response, w') \<Rightarrow>
              (case data response of
                 None \<Rightarrow> (Inl (Error ''Failed to verify payment''), w')
               | Some d \<Rightarrow> (Inr d, w'))))"

text \<open>
  One run of the \<^verbatim>\<open>try\<close> block of the polling loop: it returns from the function,
  throws into the \<^verbatim>\<open>catch\<close>, or reaches its end after the sleep.
\<close>

datatype 'a attempt = Returned 'a | Thrown js_error | Slept

definition try_block ::
  "PaymentVerification transport \<Rightarrow> string option \<Rightarrow> int \<Rightarrow> world
     \<Rightarrow> PaymentVerification attempt \<times> world" where
  "try_block http txHash intervalMs w =
     (case verify http txHash w of
        (Inl e, w') \<Rightarrow> (Thrown e, w')
      | (Inr verification, w') \<Rightarrow>
          if pv_status verification = Completed then (Returned verification, w')
          else if pv_status verification = Failed then
            (Thrown (InvalidTransactionError
                       (''Transaction failed: '' @ template (pv_error verification))
                       (if truthy_str (pv_error verification)
                        then template (pv_error verification) else ''Unknown error'')), w')
          else (Slept, sleep intervalMs w'))"

text \<open>
  The \<^verbatim>\<open>for\<close> loop of \<^verbatim>\<open>waitForConfirmation\<close>, from iteration \<open>i\<close>. The attempt count
  and the interval are whole numbers.
\<close>

function wait_loop ::
  "(jsnum \<Rightarrow> string) \<Rightarrow> PaymentVerification transport \<Rightarrow> string option \<Rightarrow> int \<Rightarrow> int \<Rightarrow> nat
     \<Rightarrow> world \<Rightarrow> (js_error + PaymentVerification) \<times> world" where
  "wait_loop numToString http txHash maxAttempts intervalMs i w =
     (if int i < maxAttempts then
        (case try_block http txHash intervalMs w of
           (Returned verification, w') \<Rightarrow> (Inr verification, w')
         | (Thrown error, w') \<Rightarrow>
             if error_statusCode error \<noteq> Some 404 then (Inl error, w')
             else wait_loop numToString http txHash maxAttempts intervalMs (Suc i) w'
         | (Slept, w') \<Rightarrow>
             wait_loop numToString http txHash maxAttempts intervalMs (Suc i) w')
      else (Inl (Error (''Transaction '' @ template txHash @ '' not confirmed after '' @
                   numToString (Fin (of_int maxAttempts)) @ '' attempts'')), w))"
  by pat_completeness auto
termination
  by (relation "measure (\<lambda>(n, h, t, m, ms, i, w). nat (m - int i))") auto

declare wait_loop.simps [simp del]

definition waitForConfirmation ::
  "(jsnum \<Rightarrow> string) \<Rightarrow> PaymentVerification transport \<Rightarrow> string option \<Rightarrow> int option
     \<Rightarrow> int option \<Rightarrow> world \<Rightarrow> (js_error + PaymentVerification) \<times> world" where
  "waitForConfirmation numToString http txHash maxAttemptsArg intervalMsArg w =
     (let maxAttempts = (case maxAttemptsArg of None \<Rightarrow> 30 | Some m \<Rightarrow> m);
          intervalMs = (case intervalMsArg of None \<Rightarrow> 2000 | Some ms \<Rightarrow> ms)
      in case and_then (validateRequired txHash ''txHash'') (validateTxHash txHash) of
        Inl e \<Rightarrow> (Inl e, w)
      | Inr u \<Rightarrow> wait_loop numToString http txHash maxAttempts intervalMs 0 w)"

section \<open>Mandate lifecycle (config-loader.ts)\<close>

record mandate_settings =
  budgetUsd :: rat
  ttlMinutes :: "rat option"
  scope :: "string option"

record AgentPayPublicConfig =
  agentId :: string
  mandate :: mandate_settings

text \<open>
  The fields of a \<^verbatim>\<open>ConfigLoader\<close> that the mandate logic reads and writes. Times are
  whole numbers: milliseconds for \<open>mandateExpiresAt\<close> and the clock, seconds for the
  \<open>expiresAt\<close> of the gateway.
\<close>

record ConfigLoader =
  config :: AgentPayPublicConfig
  cachedMandateToken :: "string option"
  mandateExpiresAt :: "int option"

record MandatePayload =
  sub :: string
  budget_usd :: string
  budget_remaining :: string
  mp_scope :: string
  exp :: int
  iat :: int
  nonce :: string

record VerifyMandateResponse =
  valid :: bool
  payload :: "MandatePayload option"
  vm_error :: "string option"

record IssueMandateResponse =
  mandateId :: string
  mandateToken :: string
  issuedAt :: int
  expiresAt :: int

text \<open>
  \<^verbatim>\<open>client.mandates\<close>: the outcome of a call depends on the number of earlier remote
  calls and on the arguments; \<open>Inl\<close> is a rejected promise.
\<close>

record client =
  mandates_verify :: "nat \<Rightarrow> string \<Rightarrow> js_error + VerifyMandateResponse"
  mandates_issue :: "nat \<Rightarrow> string \<Rightarrow> rat \<Rightarrow> string \<Rightarrow> rat \<Rightarrow> js_error + IssueMandateResponse"

definition call_verify ::
  "client \<Rightarrow> string \<Rightarrow> world \<Rightarrow> (js_error + VerifyMandateResponse) \<times> world" where
  "call_verify c token w =
     (mandates_verify c (calls w) token,
      w\<lparr>calls := Suc (calls w), events := events w @ [MandateVerify token]\<rparr>)"

definition call_issue ::
  "client \<Rightarrow> string \<Rightarrow> rat \<Rightarrow> string \<Rightarrow> rat \<Rightarrow> world
     \<Rightarrow> (js_error + IssueMandateResponse) \<times> world" where
  "call_issue c subject budget scp ttl w =
     (mandates_issue c (calls w) subject budget scp ttl,
      w\<lparr>calls := Suc (calls w), events := events w @ [MandateIssue subject budget scp ttl]\<rparr>)"

record mandate_config =
  mc_subject :: string
  mc_budgetUsd :: rat
  mc_ttlMinutes :: rat
  mc_scope :: string

definition getMandateConfig :: "ConfigLoader \<Rightarrow> mandate_config" where
  "getMandateConfig this =
     \<lparr>mc_subject = agentId (config this),
      mc_budgetUsd = budgetUsd (mandate (config this)),
      mc_ttlMinutes =
        (case ttlMinutes (mandate (config this)) of
           None \<Rightarrow> 10080 | Some t \<Rightarrow> if t = 0 then 10080 else t),
      mc_scope =
        (case scope (mandate (config this)) of
           None \<Rightarrow> ''*'' | Some x \<Rightarrow> if x = [] then ''*'' else x)\<rparr>"

text \<open>
  The literal \<^verbatim>\<open>0.01\<close> is the double nearest to one hundredth,
  \<open>5764607523034235 / 2 ^ 59\<close>.
\<close>

definition dust :: jsnum where
  "dust = Fin (5764607523034235 / 576460752303423488)"

text \<open>\<^verbatim>\<open>new Date(ms).toISOString()\<close> throws outside the range of a date.\<close>

definition date_in_range :: "int \<Rightarrow> bool" where
  "date_in_range ms = (\<bar>ms\<bar> \<le> 8640000000000000)"

text \<open>The part of \<^verbatim>\<open>ensureMandateValid\<close> under the comment "Create new mandate".\<close>

definition create_new_mandate ::
  "client \<Rightarrow> ConfigLoader \<Rightarrow> world \<Rightarrow> (js_error + string) \<times> ConfigLoader \<times> world" where
  "create_new_mandate c this w =
     (let mandateConfig = getMandateConfig this
      in case call_issue c (mc_subject mandateConfig) (mc_budgetUsd mandateConfig)
                (mc_scope mandateConfig) (mc_ttlMinutes mandateConfig) w of
        (Inl e, w') \<Rightarrow> (Inl e, this, w')
      | (Inr m, w') \<Rightarrow>
          (let this' = this\<lparr>cachedMandateToken := Some (mandateToken m),
                             mandateExpiresAt := Some (expiresAt m * 1000)\<rparr>
           in if date_in_range (expiresAt m * 1000)
              then (Inr (mandateToken m), this', w')
              else (Inl (RangeError ''Invalid time value''), this', w')))"

text \<open>
  \<open>parseFloat\<close> is JavaScript's, a parameter; \<open>now\<close> is the value of \<^verbatim>\<open>Date.now()\<close>
  at the call. Reading \<^verbatim>\<open>verification.payload.budget_remaining\<close> of an answer that
  has no payload throws a TypeError inside the \<^verbatim>\<open>try\<close>, which the \<^verbatim>\<open>catch\<close> swallows
  as it does a rejected verify call.
\<close>

definition ensureMandateValid ::
  "(string \<Rightarrow> jsnum) \<Rightarrow> client \<Rightarrow> int \<Rightarrow> ConfigLoader \<Rightarrow> world
     \<Rightarrow> (js_error + string) \<times> ConfigLoader \<times> world" where
  "ensureMandateValid parseFloat c now this w =
     (if truthy_str (cachedMandateToken this)
         \<and> (case mandateExpiresAt this of None \<Rightarrow> False | Some t \<Rightarrow> t \<noteq> 0 \<and> t > now)
      then
        (case call_verify c (template (cachedMandateToken this)) w of
           (Inl e, w') \<Rightarrow> create_new_mandate c this w'
         | (Inr verification, w') \<Rightarrow>
             if valid verification then
               (case payload verification of
                  None \<Rightarrow> create_new_mandate c this w'
                | Some p \<Rightarrow>
                    (let budgetRemaining = parseFloat (budget_remaining p)
                     in if js_gt budgetRemaining dust
                        then (Inr (template (cachedMandateToken this)), this, w')
                        else create_new_mandate c this w'))
             else create_new_mandate c this w')
      else create_new_mandate c this w)"

section \<open>Notions used in the statements\<close>

definition missing :: "string option \<Rightarrow> bool" where
  "missing v = (v = None \<or> v = Some [])"

text \<open>The value of a lowercase hexadecimal digit.\<close>

definition hex_val :: "char \<Rightarrow> nat" where
  "hex_val c = (if of_char c < (58::nat) then of_char c - 48 else of_char c - 87)"

definition well_formed_hash :: "string option \<Rightarrow> bool" where
  "well_formed_hash txHash = (truthy_str txHash \<and> txHashRegex_test (template txHash))"

definition verify_url :: "string option \<Rightarrow> string" where
  "verify_url txHash = ''/v1/payments/verify/'' @ template txHash"

definition is_http_get :: "event \<Rightarrow> bool" where
  "is_http_get ev = (case ev of HttpGet u h \<Rightarrow> True | _ \<Rightarrow> False)"

definition is_sleep :: "event \<Rightarrow> bool" where
  "is_sleep ev = (case ev of Sleep ms \<Rightarrow> True | _ \<Rightarrow> False)"

text \<open>The number of requests, and of sleeps, a world has seen.\<close>

definition polls :: "world \<Rightarrow> nat" where
  "polls w = length (filter is_http_get (events w))"

definition sleeps :: "world \<Rightarrow> nat" where
  "sleeps w = length (filter is_sleep (events w))"

text \<open>
  What one poll of the verification endpoint can say: the record is not there yet
  (status code 404), it is there and pending, or it is there and failed.
\<close>

definition not_found :: "js_error + PaymentVerification APIResponse \<Rightarrow> bool" where
  "not_found r = (case r of Inl e \<Rightarrow> error_statusCode e = Some 404 | Inr resp \<Rightarrow> False)"

definition still_pending :: "js_error + PaymentVerification APIResponse \<Rightarrow> bool" where
  "still_pending r =
     (case r of Inl e \<Rightarrow> False
      | Inr resp \<Rightarrow> (case data resp of None \<Rightarrow> False | Some v \<Rightarrow> pv_status v = Pending))"

definition reports_failed :: "js_error + PaymentVerification APIResponse \<Rightarrow> bool" where
  "reports_failed r =
     (case r of Inl e \<Rightarrow> False
      | Inr resp \<Rightarrow> (case data resp of None \<Rightarrow> False | Some v \<Rightarrow> pv_status v = Failed))"

definition chain_or_default :: "string option \<Rightarrow> string" where
  "chain_or_default chainArg = (case chainArg of None \<Rightarrow> ''base'' | Some c \<Rightarrow> c)"

definition token_or_default :: "string option \<Rightarrow> string" where
  "token_or_default tokenArg = (case tokenArg of None \<Rightarrow> ''USDC'' | Some t \<Rightarrow> t)"

definition well_formed_mandate :: "string option \<Rightarrow> bool" where
  "well_formed_mandate m =
     (truthy_str m \<and> 10 \<le> length (template m)
      \<and> length (split_on (CHR ''.'') (template m)) = 3)"

definition finite_positive :: "jsnum \<Rightarrow> bool" where
  "finite_positive p = (case p of Fin x \<Rightarrow> 0 < x | _ \<Rightarrow> False)"

text \<open>
  The preconditions of a submission as the specification words them: a commission hash
  or a price that is given must be a hash, or a finite positive number.
\<close>

definition stated_preconditions ::
  "string option \<Rightarrow> string option \<Rightarrow> string option \<Rightarrow> string option \<Rightarrow> string option
     \<Rightarrow> jsnum option \<Rightarrow> bool" where
  "stated_preconditions m txHash commission chainArg tokenArg priceUsd =
     (well_formed_mandate m \<and> well_formed_hash txHash
      \<and> (case commission of None \<Rightarrow> True | Some c \<Rightarrow> txHashRegex_test c)
      \<and> chain_or_default chainArg \<in> set SUPPORTED_CHAINS
      \<and> token_or_default tokenArg \<in> set SUPPORTED_TOKENS
      \<and> (case priceUsd of None \<Rightarrow> True | Some p \<Rightarrow> finite_positive p))"

text \<open>
  The preconditions as the code checks them: an empty commission hash counts as none, and
  a price has to be a number above zero.
\<close>

definition checked_preconditions ::
  "string option \<Rightarrow> string option \<Rightarrow> string option \<Rightarrow> string option \<Rightarrow> string option
     \<Rightarrow> jsnum option \<Rightarrow> bool" where
  "checked_preconditions m txHash commission chainArg tokenArg priceUsd =
     (well_formed_mandate m \<and> well_formed_hash txHash
      \<and> (case commission of None \<Rightarrow> True | Some c \<Rightarrow> c = [] \<or> txHashRegex_test c)
      \<and> chain_or_default chainArg \<in> set SUPPORTED_CHAINS
      \<and> token_or_default tokenArg \<in> set SUPPORTED_TOKENS
      \<and> (case priceUsd of None \<Rightarrow> True | Some p \<Rightarrow> p \<noteq> NaN \<and> js_gt p (Fin 0)))"

definition failed_result :: "string option \<Rightarrow> string option \<Rightarrow> string \<Rightarrow> SubmitPaymentResponse" where
  "failed_result txHash commission reason =
     \<lparr>spr_success = False, spr_status = Failed, spr_txHash = template txHash,
      spr_txHashCommission = commission, spr_amountUsd = Fin 0, spr_budgetRemaining = Fin 0,
      spr_resource = None, spr_error = Some reason\<rparr>"

text \<open>The request that a submission sends.\<close>

definition submit_url :: "(jsnum \<Rightarrow> string) \<Rightarrow> string option \<Rightarrow> string option \<Rightarrow> jsnum option \<Rightarrow> string" where
  "submit_url numToString chainArg tokenArg priceUsd =
     ''/x402/resource?chain='' @ chain_or_default chainArg @ ''&token='' @
     token_or_default tokenArg @
     (case priceUsd of None \<Rightarrow> [] | Some p \<Rightarrow> ''&price_usd='' @ numToString p)"

definition submit_headers :: "string option \<Rightarrow> string option \<Rightarrow> string option \<Rightarrow> (string \<times> string) list" where
  "submit_headers m txHash commission =
     [(''x-mandate'', template m),
      (''x-payment'',
       ''{'' @ json_string ''scheme'' @ '':'' @ json_string ''eip3009'' @ '','' @
       json_string ''tx_hash'' @ '':'' @ json_string (template txHash) @
       (if truthy_str commission
        then '','' @ json_string ''tx_hash_commission'' @ '':'' @
             json_string (template commission)
        else []) @ ''}'')]"

text \<open>
  The cache as \<open>ensureMandateValid\<close> reads it: absent when there is no token or no expiry
  (an empty token and an expiry of 0 count as none), expired when the recorded expiry is
  not after the clock.
\<close>

definition cache_absent :: "ConfigLoader \<Rightarrow> bool" where
  "cache_absent this =
     (mandateExpiresAt this = None \<or> mandateExpiresAt this = Some 0
      \<or> \<not> truthy_str (cachedMandateToken this))"

definition locally_expired :: "int \<Rightarrow> ConfigLoader \<Rightarrow> bool" where
  "locally_expired now this =
     (case mandateExpiresAt this of None \<Rightarrow> False | Some t \<Rightarrow> t \<le> now)"

definition cached_token :: "ConfigLoader \<Rightarrow> string" where
  "cached_token this = template (cachedMandateToken this)"

text \<open>What the remote verify call can say.\<close>

definition verify_errors :: "js_error + VerifyMandateResponse \<Rightarrow> bool" where
  "verify_errors r = (case r of Inl e \<Rightarrow> True | Inr v \<Rightarrow> False)"

definition reports_invalid :: "js_error + VerifyMandateResponse \<Rightarrow> bool" where
  "reports_invalid r = (case r of Inl e \<Rightarrow> False | Inr v \<Rightarrow> \<not> valid v)"

definition budget_at_most_dust ::
  "(string \<Rightarrow> jsnum) \<Rightarrow> js_error + VerifyMandateResponse \<Rightarrow> bool" where
  "budget_at_most_dust parseFloat r =
     (case r of Inl e \<Rightarrow> False
      | Inr v \<Rightarrow> valid v \<and>
          (case payload v of None \<Rightarrow> False
           | Some p \<Rightarrow> js_le (parseFloat (budget_remaining p)) dust))"

definition budget_above_dust ::
  "(string \<Rightarrow> jsnum) \<Rightarrow> js_error + VerifyMandateResponse \<Rightarrow> bool" where
  "budget_above_dust parseFloat r =
     (case r of Inl e \<Rightarrow> False
      | Inr v \<Rightarrow> valid v \<and>
          (case payload v of None \<Rightarrow> False
           | Some p \<Rightarrow> js_gt (parseFloat (budget_remaining p)) dust))"

text \<open>
  An answer of the verify call in the shape of the interface: a valid one carries the
  payload, and its \<open>budget_remaining\<close> is the text of a number.
\<close>

definition answer_in_shape ::
  "(string \<Rightarrow> jsnum) \<Rightarrow> js_error + VerifyMandateResponse \<Rightarrow> bool" where
  "answer_in_shape parseFloat r =
     (case r of Inl e \<Rightarrow> True
      | Inr v \<Rightarrow>
          if valid v
          then (case payload v of None \<Rightarrow> False
                | Some p \<Rightarrow> parseFloat (budget_remaining p) \<noteq> NaN)
          else True)"

definition verify_answer :: "client \<Rightarrow> ConfigLoader \<Rightarrow> world \<Rightarrow> js_error + VerifyMandateResponse" where
  "verify_answer c this w = mandates_verify c (calls w) (cached_token this)"

definition renewal_needed ::
  "(string \<Rightarrow> jsnum) \<Rightarrow> client \<Rightarrow> int \<Rightarrow> ConfigLoader \<Rightarrow> world \<Rightarrow> bool" where
  "renewal_needed parseFloat c now this w =
     (cache_absent this \<or> locally_expired now this
      \<or> verify_errors (verify_answer c this w)
      \<or> reports_invalid (verify_answer c this w)
      \<or> budget_at_most_dust parseFloat (verify_answer c this w))"

text \<open>
  A valid answer that does not confirm a budget above 0.01: it has no payload, or its
  \<open>budget_remaining\<close> is not the text of a number, or the number is at most 0.01.
\<close>

definition budget_not_confirmed ::
  "(string \<Rightarrow> jsnum) \<Rightarrow> js_error + VerifyMandateResponse \<Rightarrow> bool" where
  "budget_not_confirmed parseFloat r =
     (case r of Inl e \<Rightarrow> False
      | Inr v \<Rightarrow> valid v \<and>
          (case payload v of None \<Rightarrow> True
           | Some p \<Rightarrow> parseFloat (budget_remaining p) = NaN
                       \<or> js_le (parseFloat (budget_remaining p)) dust))"

text \<open>When the code renews.\<close>

definition renewal_decided ::
  "(string \<Rightarrow> jsnum) \<Rightarrow> client \<Rightarrow> int \<Rightarrow> ConfigLoader \<Rightarrow> world \<Rightarrow> bool" where
  "renewal_decided parseFloat c now this w =
     (cache_absent this \<or> locally_expired now this
      \<or> verify_errors (verify_answer c this w)
      \<or> reports_invalid (verify_answer c this w)
      \<or> budget_not_confirmed parseFloat (verify_answer c this w))"

text \<open>The calls a run of the function has added to the world.\<close>

definition new_events :: "world \<Rightarrow> world \<Rightarrow> event list" where
  "new_events w w' = drop (length (events w)) (events w')"

definition issue_event :: "ConfigLoader \<Rightarrow> event" where
  "issue_event this =
     MandateIssue (mc_subject (getMandateConfig this)) (mc_budgetUsd (getMandateConfig this))
       (mc_scope (getMandateConfig this)) (mc_ttlMinutes (getMandateConfig this))"

definition issue_answer :: "client \<Rightarrow> ConfigLoader \<Rightarrow> nat \<Rightarrow> js_error + IssueMandateResponse" where
  "issue_answer c this n =
     mandates_issue c n (mc_subject (getMandateConfig this)) (mc_budgetUsd (getMandateConfig this))
       (mc_scope (getMandateConfig this)) (mc_ttlMinutes (getMandateConfig this))"

definition after_verify :: "ConfigLoader \<Rightarrow> world \<Rightarrow> world" where
  "after_verify this w =
     w\<lparr>calls := Suc (calls w), events := events w @ [MandateVerify (cached_token this)]\<rparr>"

definition after_issue :: "ConfigLoader \<Rightarrow> world \<Rightarrow> world" where
  "after_issue this w =
     w\<lparr>calls := Suc (calls w), events := events w @ [issue_event this]\<rparr>"

definition with_mandate :: "IssueMandateResponse \<Rightarrow> ConfigLoader \<Rightarrow> ConfigLoader" where
  "with_mandate m this =
     this\<lparr>cachedMandateToken := Some (mandateToken m),
          mandateExpiresAt := Some (expiresAt m * 1000)\<rparr>"

definition is_mandate_issue :: "event \<Rightarrow> bool" where
  "is_mandate_issue ev = (case ev of MandateIssue a b c d \<Rightarrow> True | _ \<Rightarrow> False)"

definition issued :: "world \<Rightarrow> world \<Rightarrow> bool" where
  "issued w w' = (filter is_mandate_issue (new_events w w') \<noteq> [])"

text \<open>What a renewal does, whatever the world it starts from.\<close>

definition renewal_outcome ::
  "client \<Rightarrow> ConfigLoader \<Rightarrow> nat \<Rightarrow> (js_error + string) \<Rightarrow> ConfigLoader \<Rightarrow> bool" where
  "renewal_outcome c this n res this' =
     (case issue_answer c this n of
        Inl e \<Rightarrow> res = Inl e \<and> this' = this
      | Inr m \<Rightarrow>
          this' = with_mandate m this
          \<and> res = (if date_in_range (expiresAt m * 1000) then Inr (mandateToken m)
                    else Inl (RangeError ''Invalid time value'')))"

section \<open>Sample inputs for concrete runs\<close>

text \<open>A keyed digest to run the verifier on; it is not HMAC-SHA256.\<close>

definition sample_mac :: "string \<Rightarrow> string \<Rightarrow> 8 word list" where
  "sample_mac k p = map (\<lambda>c. of_nat (of_char c)) (k @ p)"

definition sample_hash :: string where
  "sample_hash = ''0x'' @ replicate 64 (CHR ''a'')"

definition sample_mandate :: string where
  "sample_mandate = ''header.payload.signature''"

fun show_nat :: "nat \<Rightarrow> string" where
  "show_nat n =
     (if n < 10 then [''0123456789'' ! n]
      else show_nat (n div 10) @ [''0123456789'' ! (n mod 10)])"

declare show_nat.simps [simp del]

definition sample_numToString :: "jsnum \<Rightarrow> string" where
  "sample_numToString n =
     (case n of NaN \<Rightarrow> ''NaN'' | PosInf \<Rightarrow> ''Infinity'' | NegInf \<Rightarrow> ''-Infinity''
      | Fin x \<Rightarrow> if x < 0 then ''-'' @ show_nat (nat \<lfloor>- x\<rfloor>) else show_nat (nat \<lfloor>x\<rfloor>))"

definition w0 :: world where
  "w0 = \<lparr>calls = 0, events = []\<rparr>"

definition gateway_not_found :: "PaymentVerification transport" where
  "gateway_not_found n url headers =
     Inl (AgentPayError ''Payment not found'' ''API_ERROR'' (Some 404))"

definition gateway_fails_third :: "PaymentVerification transport" where
  "gateway_fails_third n url headers =
     (if n = 0 then Inl (AgentPayError ''Payment not found'' ''API_ERROR'' (Some 404))
      else Inr \<lparr>success = True,
             data = Some \<lparr>isValid = False, pv_txHash = sample_hash,
                          pv_status = (if n < 2 then Pending else Failed),
                          pv_error = (if n < 2 then None else Some ''amount mismatch'')\<rparr>,
             statusCode = 200\<rparr>)"

definition sample_parse :: "string \<Rightarrow> nat option" where
  "sample_parse s = (if s = ''{}'' then Some 0 else None)"

definition gateway_accepts :: "resource_data transport" where
  "gateway_accepts n url headers =
     Inr \<lparr>success = True,
          data = Some \<lparr>amount_usd = Some (Fin 3), rd_budget_remaining = Some (Fin 7)\<rparr>,
          statusCode = 200\<rparr>"

text \<open>A gateway that refuses the sample transaction and serves every other request.\<close>

definition gateway_rejects :: "resource_data transport" where
  "gateway_rejects n url headers =
     (if url = ''/x402/resource?chain=base&token=USDC''
         \<and> headers = submit_headers (Some sample_mandate) (Some sample_hash) None
      then Inl (InvalidTransactionError ''Invalid transaction: amount mismatch''
                  ''amount mismatch'')
      else Inr \<lparr>success = True,
             data = Some \<lparr>amount_usd = Some (Fin 3), rd_budget_remaining = Some (Fin 7)\<rparr>,
             statusCode = 200\<rparr>)"

definition gateway_unauthorized :: "resource_data transport" where
  "gateway_unauthorized n url headers = Inl (AuthenticationError ''Invalid API key'')"

definition sample_parseFloat :: "string \<Rightarrow> jsnum" where
  "sample_parseFloat s =
     (if s = ''7.00'' then Fin 7 else if s = ''0.00'' then Fin 0 else NaN)"

definition sample_payload :: "string \<Rightarrow> MandatePayload" where
  "sample_payload remaining =
     \<lparr>sub = ''agent@example.com'', budget_usd = ''10.00'', budget_remaining = remaining,
      mp_scope = ''*'', exp = 1700003600, iat = 1700000000, nonce = ''n-1''\<rparr>"

definition sample_client :: client where
  "sample_client =
     \<lparr>mandates_verify = (\<lambda>n tok.
        Inr \<lparr>valid = True, payload = Some (sample_payload ''7.00''), vm_error = None\<rparr>),
      mandates_issue = (\<lambda>n subject budget scp ttl.
        Inr \<lparr>mandateId = ''mandate-1'', mandateToken = sample_mandate,
             issuedAt = 1700000000, expiresAt = 1700003600\<rparr>)\<rparr>"

definition exhausted_client :: client where
  "exhausted_client =
     \<lparr>mandates_verify = (\<lambda>n tok.
        Inr \<lparr>valid = True, payload = Some (sample_payload ''0.00''), vm_error = None\<rparr>),
      mandates_issue = (\<lambda>n subject budget scp ttl.
        Inl (MandateError ''Failed to issue mandate'' ''ISSUE_FAILED''))\<rparr>"

definition sample_loader :: ConfigLoader where
  "sample_loader =
     \<lparr>config = \<lparr>agentId = ''agent@example.com'',
                 mandate = \<lparr>budgetUsd = 10, ttlMinutes = Some 60, scope = None\<rparr>\<rparr>,
      cachedMandateToken = None, mandateExpiresAt = None\<rparr>"

definition cached_loader :: ConfigLoader where
  "cached_loader =
     sample_loader\<lparr>cachedMandateToken := Some sample_mandate,
                   mandateExpiresAt := Some 1700003600000\<rparr>"

definition renewed_mandate :: IssueMandateResponse where
  "renewed_mandate =
     \<lparr>mandateId = ''mandate-2'', mandateToken = ''renewed.mandate.token'',
      issuedAt = 1700000000, expiresAt = 1700003600\<rparr>"

text \<open>A client whose verify answer is valid with a budget that is not a number.\<close>

definition unparsed_client :: client where
  "unparsed_client =
     \<lparr>mandates_verify = (\<lambda>n tok.
        Inr \<lparr>valid = True, payload = Some (sample_payload ''abc''), vm_error = None\<rparr>),
      mandates_issue = (\<lambda>n subject budget scp ttl. Inr renewed_mandate)\<rparr>"

text \<open>A client that issues a mandate whose expiry lies outside the range of dates.\<close>

definition far_future_client :: client where
  "far_future_client =
     \<lparr>mandates_verify = (\<lambda>n tok.
        Inr \<lparr>valid = True, payload = Some (sample_payload ''7.00''), vm_error = None\<rparr>),
      mandates_issue = (\<lambda>n subject budget scp ttl.
        Inr (renewed_mandate\<lparr>expiresAt := 10000000000000\<rparr>))\<rparr>"

section \<open>Webhook signatures\<close>

lemma lt16_cases: "n < (16::nat) \<Longrightarrow> n \<in> {0,1,2,3,4,5,6,7,8,9,10,11,12,13,14,15}"
  by simp presburger

lemma hex_val_digit: "n < 16 \<Longrightarrow> hex_val (hex_digit n) = n"
  using lt16_cases [of n] by (auto simp: hex_val_def hex_digit_def)

lemma hex_byte_inj: "hex_byte a = hex_byte b \<Longrightarrow> a = b"
proof -
  assume h: "hex_byte a = hex_byte b"
  have da: "unat a div 16 < 16" and db: "unat b div 16 < 16"
    using unsigned_less [of a, where ?'a = nat] unsigned_less [of b, where ?'a = nat]
    by auto
  have "hex_digit (unat a div 16) = hex_digit (unat b div 16)"
    and "hex_digit (unat a mod 16) = hex_digit (unat b mod 16)"
    using h by (simp_all add: hex_byte_def)
  then have "hex_val (hex_digit (unat a div 16)) = hex_val (hex_digit (unat b div 16))"
    and "hex_val (hex_digit (unat a mod 16)) = hex_val (hex_digit (unat b mod 16))"
    by simp_all
  then have "unat a div 16 = unat b div 16" and "unat a mod 16 = unat b mod 16"
    using da db by (simp_all add: hex_val_digit)
  then have "unat a = unat b"
    by (metis div_mult_mod_eq)
  then show "a = b" by (simp add: word_unat_eq_iff)
qed

lemma digest_hex_inj: "digest_hex xs = digest_hex ys \<Longrightarrow> xs = ys"
proof (induction xs arbitrary: ys)
  case Nil
  then show ?case by (cases ys) (simp_all add: digest_hex_def hex_byte_def)
next
  case (Cons x xs)
  then show ?case
  proof (cases ys)
    case Nil
    with Cons.prems show ?thesis by (simp add: digest_hex_def hex_byte_def)
  next
    case (Cons y ys')
    with Cons.prems have "hex_byte x @ digest_hex xs = hex_byte y @ digest_hex ys'"
      by (simp add: digest_hex_def)
    moreover have "length (hex_byte x) = length (hex_byte y)" by (simp add: hex_byte_def)
    ultimately have "hex_byte x = hex_byte y" and "digest_hex xs = digest_hex ys'"
      by simp_all
    with Cons.IH Cons show ?thesis by (simp add: hex_byte_inj)
  qed
qed

lemma validateRequired_cases:
  "validateRequired v f =
     (if missing v then Inl (ValidationError (f @ '' is required'')) else Inr ())"
  by (simp add: validateRequired_def missing_def)

lemma verifySignature_present:
  "\<not> missing p \<Longrightarrow> \<not> missing s \<Longrightarrow> \<not> missing k \<Longrightarrow>
   verifySignature hmac p s k = Inr (template s = digest_hex (hmac (template k) (template p)))"
  by (simp add: verifySignature_def validateRequired_cases)

lemma verifySignature_missing:
  "missing p \<or> missing s \<or> missing k \<Longrightarrow>
   \<exists>m. verifySignature hmac p s k = Inl (ValidationError m)"
  by (auto simp: verifySignature_def validateRequired_cases)

text \<open>
  C6. For non-empty payload, signature and secret, \<open>verifySignature\<close> returns the boolean
  "the signature is the lowercase hexadecimal text of the keyed digest of the payload under
  the secret". On another payload it answers true for that same signature exactly when the
  digest of the other payload is the same digest, so a changed payload is refused unless
  the keyed hash collides on the two. It throws exactly when an argument is missing or
  empty, never for a mismatch.
\<close>

theorem verifySignature_hmac_equality:
  assumes "rawPayload \<noteq> []" and "signature \<noteq> []" and "secret \<noteq> []"
  shows "verifySignature hmac (Some rawPayload) (Some signature) (Some secret)
           = Inr (signature = digest_hex (hmac secret rawPayload))
       \<and> (\<forall>other. other \<noteq> [] \<and> signature = digest_hex (hmac secret rawPayload) \<longrightarrow>
             verifySignature hmac (Some other) (Some signature) (Some secret)
               = Inr (hmac secret other = hmac secret rawPayload))
       \<and> ((\<exists>e. verifySignature hmac p s k = Inl e) = (missing p \<or> missing s \<or> missing k))"
proof (intro conjI allI impI)
  show "verifySignature hmac (Some rawPayload) (Some signature) (Some secret)
           = Inr (signature = digest_hex (hmac secret rawPayload))"
    using assms by (simp add: verifySignature_present missing_def template_def)
next
  fix other :: string
  assume "other \<noteq> [] \<and> signature = digest_hex (hmac secret rawPayload)"
  then show "verifySignature hmac (Some other) (Some signature) (Some secret)
               = Inr (hmac secret other = hmac secret rawPayload)"
    using assms digest_hex_inj [of "hmac secret rawPayload" "hmac secret other"]
    by (auto simp: verifySignature_present missing_def template_def)
next
  show "(\<exists>e. verifySignature hmac p s k = Inl e) = (missing p \<or> missing s \<or> missing k)"
  proof (cases "missing p \<or> missing s \<or> missing k")
    case True
    then show ?thesis using verifySignature_missing [of p s k hmac] by auto
  next
    case False
    then show ?thesis by (simp add: verifySignature_present)
  qed
qed

theorem verifySignature_hmac_equality_witness:
  "''{}'' \<noteq> [] \<and> ''6b7b7d'' \<noteq> [] \<and> ''k'' \<noteq> []
   \<and> verifySignature sample_mac (Some ''{}'') (Some ''6b7b7d'') (Some ''k'') = Inr True
   \<and> verifySignature sample_mac (Some ''{ }'') (Some ''6b7b7d'') (Some ''k'') = Inr False
   \<and> (\<exists>e. verifySignature sample_mac (Some ''{}'') None (Some ''k'') = Inl e)"
  using verifySignature_hmac_equality
    [of "''{}''" "''6b7b7d''" "''k''" sample_mac "Some ''{}''" None "Some ''k''"]
  by (simp add: sample_mac_def digest_hex_def hex_byte_def hex_digit_def missing_def)

text \<open>
  C7. When \<open>verifySignature\<close> answers false, \<open>verifyAndParse\<close> throws "Invalid webhook
  signature" and has handed nothing to the parser. When it answers true the payload is
  parsed, once: a payload the parser refuses gives the other error, "Invalid webhook
  payload JSON", and a parsed one is returned.
\<close>

theorem verifyAndParse_verifies_before_parsing:
  "(verifySignature hmac rawPayload signature secret = Inr False \<longrightarrow>
      verifyAndParse hmac parse rawPayload signature secret
        = (Inl (Error ''Invalid webhook signature''), []))
   \<and> (verifySignature hmac rawPayload signature secret = Inr True \<longrightarrow>
      verifyAndParse hmac parse rawPayload signature secret
        = (case parse (template rawPayload) of
             None \<Rightarrow> (Inl (Error ''Invalid webhook payload JSON''), [template rawPayload])
           | Some v \<Rightarrow> (Inr v, [template rawPayload])))
   \<and> (snd (verifyAndParse hmac parse rawPayload signature secret) \<noteq> [] \<longrightarrow>
      verifySignature hmac rawPayload signature secret = Inr True)
   \<and> Error ''Invalid webhook signature'' \<noteq> Error ''Invalid webhook payload JSON''"
proof (cases "verifySignature hmac rawPayload signature secret")
  case (Inl e)
  then show ?thesis by (simp add: verifyAndParse_def)
next
  case (Inr ok)
  then show ?thesis by (cases ok) (simp_all add: verifyAndParse_def split: option.splits)
qed

theorem verifyAndParse_verifies_before_parsing_witness:
  "verifySignature sample_mac (Some ''{}'') (Some ''00'') (Some ''k'') = Inr False
   \<and> verifyAndParse sample_mac sample_parse (Some ''{}'') (Some ''00'') (Some ''k'')
       = (Inl (Error ''Invalid webhook signature''), [])
   \<and> verifySignature sample_mac (Some ''{}'') (Some ''6b7b7d'') (Some ''k'') = Inr True
   \<and> verifyAndParse sample_mac sample_parse (Some ''{}'') (Some ''6b7b7d'') (Some ''k'')
       = (Inr 0, [''{}''])
   \<and> verifySignature sample_mac (Some ''{'') (Some ''6b7b'') (Some ''k'') = Inr True
   \<and> verifyAndParse sample_mac sample_parse (Some ''{'') (Some ''6b7b'') (Some ''k'')
       = (Inl (Error ''Invalid webhook payload JSON''), [''{''])"
proof -
  have f: "verifySignature sample_mac (Some ''{}'') (Some ''00'') (Some ''k'') = Inr False"
    by (simp add: verifySignature_present missing_def template_def sample_mac_def
          digest_hex_def hex_byte_def hex_digit_def)
  have t1: "verifySignature sample_mac (Some ''{}'') (Some ''6b7b7d'') (Some ''k'') = Inr True"
    by (simp add: verifySignature_present missing_def template_def sample_mac_def
          digest_hex_def hex_byte_def hex_digit_def)
  have t2: "verifySignature sample_mac (Some ''{'') (Some ''6b7b'') (Some ''k'') = Inr True"
    by (simp add: verifySignature_present missing_def template_def sample_mac_def
          digest_hex_def hex_byte_def hex_digit_def)
  have r1: "verifyAndParse sample_mac sample_parse (Some ''{}'') (Some ''00'') (Some ''k'')
       = (Inl (Error ''Invalid webhook signature''), [])"
    using f verifyAndParse_verifies_before_parsing
        [of sample_mac "Some ''{}''" "Some ''00''" "Some ''k''" sample_parse]
    by blast
  have "verifyAndParse sample_mac sample_parse (Some ''{}'') (Some ''6b7b7d'') (Some ''k'')
       = (case sample_parse (template (Some ''{}'')) of
             None \<Rightarrow> (Inl (Error ''Invalid webhook payload JSON''), [template (Some ''{}'')])
           | Some v \<Rightarrow> (Inr v, [template (Some ''{}'')]))"
    using t1 verifyAndParse_verifies_before_parsing
        [of sample_mac "Some ''{}''" "Some ''6b7b7d''" "Some ''k''" sample_parse]
    by blast
  then have r2: "verifyAndParse sample_mac sample_parse (Some ''{}'') (Some ''6b7b7d'') (Some ''k'')
       = (Inr 0, [''{}''])"
    by (simp add: sample_parse_def template_def)
  have "verifyAndParse sample_mac sample_parse (Some ''{'') (Some ''6b7b'') (Some ''k'')
       = (case sample_parse (template (Some ''{'')) of
             None \<Rightarrow> (Inl (Error ''Invalid webhook payload JSON''), [template (Some ''{'')])
           | Some v \<Rightarrow> (Inr v, [template (Some ''{'')]))"
    using t2 verifyAndParse_verifies_before_parsing
        [of sample_mac "Some ''{''" "Some ''6b7b''" "Some ''k''" sample_parse]
    by blast
  then have r3: "verifyAndParse sample_mac sample_parse (Some ''{'') (Some ''6b7b'') (Some ''k'')
       = (Inl (Error ''Invalid webhook payload JSON''), [''{''])"
    by (simp add: sample_parse_def template_def)
  from f t1 t2 r1 r2 r3 show ?thesis by (intro conjI)
qed

text \<open>
  C10. The required-argument check reads the empty string as it reads a missing value, so
  \<open>verifySignature\<close>, and \<open>verifyAndParse\<close> with it, throws a ValidationError whenever the
  payload, the signature or the secret is empty: an empty body is refused even under the
  signature that is the digest of the empty text.
\<close>

theorem verifySignature_empty_argument_throws:
  "validateRequired (Some []) fieldName = validateRequired None fieldName
   \<and> (\<exists>m. verifySignature hmac (Some []) s k = Inl (ValidationError m))
   \<and> (\<exists>m. verifySignature hmac p (Some []) k = Inl (ValidationError m))
   \<and> (\<exists>m. verifySignature hmac p s (Some []) = Inl (ValidationError m))
   \<and> (\<exists>m. verifyAndParse hmac parse (Some []) s k = (Inl (ValidationError m), []))
   \<and> (\<exists>m. verifyAndParse hmac parse p (Some []) k = (Inl (ValidationError m), []))
   \<and> (\<exists>m. verifyAndParse hmac parse p s (Some []) = (Inl (ValidationError m), []))
   \<and> verifySignature hmac (Some []) (Some (digest_hex (hmac secret []))) (Some secret)
       = Inl (ValidationError ''payload is required'')"
proof -
  have a: "\<exists>m. verifySignature hmac (Some []) s k = Inl (ValidationError m)"
    by (rule verifySignature_missing) (simp add: missing_def)
  have b: "\<exists>m. verifySignature hmac p (Some []) k = Inl (ValidationError m)"
    by (rule verifySignature_missing) (simp add: missing_def)
  have c: "\<exists>m. verifySignature hmac p s (Some []) = Inl (ValidationError m)"
    by (rule verifySignature_missing) (simp add: missing_def)
  have d: "verifySignature hmac (Some []) (Some (digest_hex (hmac secret []))) (Some secret)
       = Inl (ValidationError ''payload is required'')"
    by (simp add: verifySignature_def validateRequired_def)
  have e: "validateRequired (Some []) fieldName = validateRequired None fieldName"
    by (simp add: validateRequired_def)
  from a b c d e show ?thesis
    by (auto simp: verifyAndParse_def)
qed

theorem verifySignature_empty_argument_throws_witness:
  "verifySignature sample_mac (Some []) (Some (digest_hex (sample_mac ''k'' []))) (Some ''k'')
       = Inl (ValidationError ''payload is required'')
   \<and> verifySignature sample_mac (Some ''{}'') (Some []) (Some ''k'')
       = Inl (ValidationError ''signature is required'')
   \<and> verifyAndParse sample_mac sample_parse (Some ''{}'') (Some ''6b7b7d'') (Some [])
       = (Inl (ValidationError ''secret is required''), [])"
  using verifySignature_empty_argument_throws [of _ sample_mac _ _ _ sample_parse "''k''"]
  by (simp add: verifySignature_def verifyAndParse_def validateRequired_def)

section \<open>Confirmation polling\<close>

lemma hash_checks_pass:
  "well_formed_hash txHash \<Longrightarrow>
   and_then (validateRequired txHash ''txHash'') (validateTxHash txHash) = Inr ()"
  by (cases txHash) (auto simp: well_formed_hash_def validateRequired_def validateTxHash_def truthy_str_def)

lemma verify_well_formed:
  "well_formed_hash txHash \<Longrightarrow>
   verify http txHash w =
     (case http (calls w) (verify_url txHash) [] of
        Inl e \<Rightarrow> Inl e
      | Inr resp \<Rightarrow> (case data resp of None \<Rightarrow> Inl (Error ''Failed to verify payment'') | Some d \<Rightarrow> Inr d),
      w\<lparr>calls := Suc (calls w), events := events w @ [HttpGet (verify_url txHash) []]\<rparr>)"
  by (simp add: verify_def hash_checks_pass http_get_def verify_url_def split: sum.splits option.splits)

lemma try_block_not_found:
  "well_formed_hash txHash \<Longrightarrow> not_found (http (calls w) (verify_url txHash) []) \<Longrightarrow>
   \<exists>e. error_statusCode e = Some 404 \<and>
     try_block http txHash ms w =
       (Thrown e, w\<lparr>calls := Suc (calls w), events := events w @ [HttpGet (verify_url txHash) []]\<rparr>)"
  by (auto simp: try_block_def verify_well_formed not_found_def split: sum.splits)

lemma try_block_pending:
  "well_formed_hash txHash \<Longrightarrow> still_pending (http (calls w) (verify_url txHash) []) \<Longrightarrow>
     try_block http txHash ms w =
       (Slept, w\<lparr>calls := Suc (calls w),
                 events := events w @ [HttpGet (verify_url txHash) [], Sleep ms]\<rparr>)"
  by (auto simp: try_block_def verify_well_formed still_pending_def sleep_def split: sum.splits option.splits)

lemma try_block_failed:
  "well_formed_hash txHash \<Longrightarrow>
   http (calls w) (verify_url txHash) [] = Inr resp \<Longrightarrow> data resp = Some v \<Longrightarrow>
   pv_status v = Failed \<Longrightarrow>
     try_block http txHash ms w =
       (Thrown (InvalidTransactionError
                  (''Transaction failed: '' @ template (pv_error v))
                  (if truthy_str (pv_error v) then template (pv_error v) else ''Unknown error'')),
        w\<lparr>calls := Suc (calls w), events := events w @ [HttpGet (verify_url txHash) []]\<rparr>)"
  by (simp add: try_block_def verify_well_formed)

lemma wait_loop_failed_after:
  assumes wf: "well_formed_hash txHash"
  shows "\<forall>j<n. not_found (http (calls w + j) (verify_url txHash) [])
               \<or> still_pending (http (calls w + j) (verify_url txHash) []) \<Longrightarrow>
         http (calls w + n) (verify_url txHash) [] = Inr resp \<Longrightarrow> data resp = Some v \<Longrightarrow>
         pv_status v = Failed \<Longrightarrow> int (i + n) < maxAttempts \<Longrightarrow>
         (case wait_loop numToString http txHash maxAttempts ms i w of (r, w') \<Rightarrow>
            r = Inl (InvalidTransactionError
                  (''Transaction failed: '' @ template (pv_error v))
                  (if truthy_str (pv_error v) then template (pv_error v) else ''Unknown error''))
            \<and> calls w' = calls w + Suc n \<and> polls w' = polls w + Suc n)"
proof (induction n arbitrary: i w)
  case 0
  then have "int i < maxAttempts" by simp
  moreover have "http (calls w) (verify_url txHash) [] = Inr resp" using 0 by simp
  ultimately show ?case
    using 0 wf try_block_failed [of txHash http w resp v ms]
    by (subst wait_loop.simps) (simp add: polls_def is_http_get_def)
next
  case (Suc n)
  have lt: "int i < maxAttempts" using Suc.prems by simp
  let ?w1 = "w\<lparr>calls := Suc (calls w), events := events w @ [HttpGet (verify_url txHash) []]\<rparr>"
  let ?w2 = "w\<lparr>calls := Suc (calls w), events := events w @ [HttpGet (verify_url txHash) [], Sleep ms]\<rparr>"
  have first: "not_found (http (calls w) (verify_url txHash) [])
               \<or> still_pending (http (calls w) (verify_url txHash) [])"
    using Suc.prems(1) by (metis add.right_neutral zero_less_Suc)
  have rest: "\<And>w'. calls w' = Suc (calls w) \<Longrightarrow>
      (case wait_loop numToString http txHash maxAttempts ms (Suc i) w' of (r, w'') \<Rightarrow>
            r = Inl (InvalidTransactionError
                  (''Transaction failed: '' @ template (pv_error v))
                  (if truthy_str (pv_error v) then template (pv_error v) else ''Unknown error''))
            \<and> calls w'' = calls w' + Suc n \<and> polls w'' = polls w' + Suc n)"
  proof -
    fix w' :: world assume c: "calls w' = Suc (calls w)"
    have a: "\<forall>j<n. not_found (http (calls w' + j) (verify_url txHash) [])
               \<or> still_pending (http (calls w' + j) (verify_url txHash) [])"
      using Suc.prems(1) c by (metis add_Suc_shift Suc_less_eq add_Suc)
    have b: "http (calls w' + n) (verify_url txHash) [] = Inr resp"
      using Suc.prems(2) c by simp
    have d: "int (Suc i + n) < maxAttempts" using Suc.prems(5) by simp
    show "(case wait_loop numToString http txHash maxAttempts ms (Suc i) w' of (r, w'') \<Rightarrow>
            r = Inl (InvalidTransactionError
                  (''Transaction failed: '' @ template (pv_error v))
                  (if truthy_str (pv_error v) then template (pv_error v) else ''Unknown error''))
            \<and> calls w'' = calls w' + Suc n \<and> polls w'' = polls w' + Suc n)"
      by (rule Suc.IH [OF a b Suc.prems(3) Suc.prems(4) d])
  qed
  from first show ?case
  proof
    assume nf: "not_found (http (calls w) (verify_url txHash) [])"
    from try_block_not_found [of txHash http w ms] wf nf obtain e where
      e: "error_statusCode e = Some 404" "try_block http txHash ms w = (Thrown e, ?w1)" by blast
    have "wait_loop numToString http txHash maxAttempts ms i w
            = wait_loop numToString http txHash maxAttempts ms (Suc i) ?w1"
      using lt e by (subst wait_loop.simps) simp
    then show ?thesis using rest [of ?w1]
      by (simp add: polls_def is_http_get_def split: prod.splits)
  next
    assume sp: "still_pending (http (calls w) (verify_url txHash) [])"
    have "wait_loop numToString http txHash maxAttempts ms i w
            = wait_loop numToString http txHash maxAttempts ms (Suc i) ?w2"
      using lt wf sp try_block_pending [of txHash http w ms] by (subst wait_loop.simps) simp
    then show ?thesis using rest [of ?w2]
      by (simp add: polls_def is_http_get_def split: prod.splits)
  qed
qed


lemma sample_hash_ok: "well_formed_hash (Some sample_hash)"
  by (simp add: well_formed_hash_def truthy_str_def template_def txHashRegex_test_def sample_hash_def is_hex_char_def list_all_iff)


text \<open>
  C4. Let the hash be well formed, and let the first \<open>k - 1\<close> polls each say "not found"
  or "pending" and poll \<open>k\<close> return a record whose status is failed, with \<open>k\<close> within
  the attempt count. Then \<open>waitForConfirmation\<close> throws the InvalidTransactionError built
  from that record (its reason is the record's error text, or "Unknown error" when the
  record has none), and the transport has been called exactly \<open>k\<close> times: nothing is
  polled after the failed record.
\<close>

theorem waitForConfirmation_failed_on_poll:
  assumes "well_formed_hash txHash"
    and "0 < k" and "int k \<le> (case maxAttemptsArg of None \<Rightarrow> 30 | Some m \<Rightarrow> m)"
    and "\<forall>j<k - 1. not_found (http (calls w + j) (verify_url txHash) [])
               \<or> still_pending (http (calls w + j) (verify_url txHash) [])"
    and "http (calls w + (k - 1)) (verify_url txHash) [] = Inr resp"
    and "data resp = Some v" and "pv_status v = Failed"
  shows "fst (waitForConfirmation numToString http txHash maxAttemptsArg intervalMsArg w)
           = Inl (InvalidTransactionError
                  (''Transaction failed: '' @ template (pv_error v))
                  (if truthy_str (pv_error v) then template (pv_error v) else ''Unknown error''))
       \<and> calls (snd (waitForConfirmation numToString http txHash maxAttemptsArg intervalMsArg w))
           = calls w + k
       \<and> polls (snd (waitForConfirmation numToString http txHash maxAttemptsArg intervalMsArg w))
           = polls w + k"
proof -
  let ?m = "case maxAttemptsArg of None \<Rightarrow> 30 | Some m \<Rightarrow> m"
  let ?ms = "case intervalMsArg of None \<Rightarrow> 2000 | Some ms \<Rightarrow> ms"
  have eq: "waitForConfirmation numToString http txHash maxAttemptsArg intervalMsArg w
          = wait_loop numToString http txHash ?m ?ms 0 w"
    using assms(1) by (simp add: waitForConfirmation_def hash_checks_pass Let_def)
  have lt: "int (0 + (k - 1)) < ?m" using assms(2,3) by simp
  have "case wait_loop numToString http txHash ?m ?ms 0 w of (r, w') \<Rightarrow>
            r = Inl (InvalidTransactionError
                  (''Transaction failed: '' @ template (pv_error v))
                  (if truthy_str (pv_error v) then template (pv_error v) else ''Unknown error''))
            \<and> calls w' = calls w + Suc (k - 1) \<and> polls w' = polls w + Suc (k - 1)"
    using assms(1,4,5,6,7) lt
      wait_loop_failed_after [where txHash = txHash and n = "k - 1" and http = http and w = w
        and resp = resp and v = v and i = 0 and maxAttempts = ?m and ms = ?ms
        and numToString = numToString]
    by simp
  then show ?thesis using eq assms(2) by (simp split: prod.splits)
qed

theorem waitForConfirmation_failed_on_poll_witness:
  "well_formed_hash (Some sample_hash) \<and> (0::nat) < 3 \<and> int 3 \<le> 5
   \<and> not_found (gateway_fails_third 0 (verify_url (Some sample_hash)) [])
   \<and> still_pending (gateway_fails_third 1 (verify_url (Some sample_hash)) [])
   \<and> reports_failed (gateway_fails_third 2 (verify_url (Some sample_hash)) [])
   \<and> fst (waitForConfirmation sample_numToString gateway_fails_third (Some sample_hash) (Some 5) (Some 2000) w0)
       = Inl (InvalidTransactionError ''Transaction failed: amount mismatch'' ''amount mismatch'')
   \<and> calls (snd (waitForConfirmation sample_numToString gateway_fails_third (Some sample_hash) (Some 5) (Some 2000) w0)) = 3"
proof -
  have a: "\<forall>j<3 - 1. not_found (gateway_fails_third (calls w0 + j) (verify_url (Some sample_hash)) [])
               \<or> still_pending (gateway_fails_third (calls w0 + j) (verify_url (Some sample_hash)) [])"
    by (simp add: less_Suc_eq numeral_2_eq_2 numeral_3_eq_3 gateway_fails_third_def w0_def not_found_def still_pending_def)
  have b: "gateway_fails_third (calls w0 + (3 - 1)) (verify_url (Some sample_hash)) []
            = Inr \<lparr>success = True,
             data = Some \<lparr>isValid = False, pv_txHash = sample_hash,
                          pv_status = Failed, pv_error = Some ''amount mismatch''\<rparr>,
             statusCode = 200\<rparr>"
    by (simp add: gateway_fails_third_def w0_def)
  have c: "int 3 \<le> (case Some 5 of None \<Rightarrow> 30 | Some m \<Rightarrow> m)" by simp
  show ?thesis
    using a b c waitForConfirmation_failed_on_poll [where txHash = "Some sample_hash" and k = 3
        and maxAttemptsArg = "Some 5" and http = gateway_fails_third and w = w0
        and numToString = sample_numToString and intervalMsArg = "Some 2000"
        and resp = "\<lparr>success = True,
             data = Some \<lparr>isValid = False, pv_txHash = sample_hash,
                          pv_status = Failed, pv_error = Some ''amount mismatch''\<rparr>,
             statusCode = 200\<rparr>"
        and v = "\<lparr>isValid = False, pv_txHash = sample_hash,
                          pv_status = Failed, pv_error = Some ''amount mismatch''\<rparr>"]
    by (simp add: sample_hash_ok gateway_fails_third_def not_found_def still_pending_def reports_failed_def
          truthy_str_def template_def w0_def)
qed

lemma wait_loop_not_found:
  assumes wf: "well_formed_hash txHash"
  shows "\<forall>j. not_found (http (calls w + j) (verify_url txHash) []) \<Longrightarrow>
         n = nat (maxAttempts - int i) \<Longrightarrow>
         wait_loop numToString http txHash maxAttempts ms i w =
           (Inl (Error (''Transaction '' @ template txHash @ '' not confirmed after '' @
                   numToString (Fin (of_int maxAttempts)) @ '' attempts'')),
            w\<lparr>calls := calls w + n,
              events := events w @ replicate n (HttpGet (verify_url txHash) [])\<rparr>)"
proof (induction n arbitrary: i w)
  case 0
  then have "\<not> int i < maxAttempts" by simp
  then show ?case by (subst wait_loop.simps) simp
next
  case (Suc n)
  have lt: "int i < maxAttempts" using Suc.prems(2) by simp
  let ?w1 = "w\<lparr>calls := Suc (calls w), events := events w @ [HttpGet (verify_url txHash) []]\<rparr>"
  have nf: "not_found (http (calls w) (verify_url txHash) [])"
    using Suc.prems(1) by (metis add.right_neutral)
  from try_block_not_found [of txHash http w ms] wf nf obtain e where
    e: "error_statusCode e = Some 404" "try_block http txHash ms w = (Thrown e, ?w1)" by blast
  have step: "wait_loop numToString http txHash maxAttempts ms i w
            = wait_loop numToString http txHash maxAttempts ms (Suc i) ?w1"
    using lt e by (subst wait_loop.simps) simp
  have a: "\<forall>j. not_found (http (calls ?w1 + j) (verify_url txHash) [])"
  proof
    fix j
    show "not_found (http (calls ?w1 + j) (verify_url txHash) [])"
      using Suc.prems(1) [rule_format, of "Suc j"] by simp
  qed
  have b: "n = nat (maxAttempts - int (Suc i))" using Suc.prems(2) by simp
  show ?case
    unfolding step Suc.IH [OF a b]
    by (simp add: replicate_app_Cons_same)
qed

text \<open>
  C5. A gateway that answers "not found" to every poll: five attempts make five requests
  and nothing else, none of them followed by a sleep, and the call ends with the timeout
  error that names the hash and the attempt count.
\<close>

theorem waitForConfirmation_not_found_never_sleeps:
  "waitForConfirmation sample_numToString gateway_not_found (Some sample_hash) (Some 5)
       (Some 2000) w0
     = (Inl (Error (''Transaction '' @ sample_hash @ '' not confirmed after 5 attempts'')),
        \<lparr>calls = 5, events = replicate 5 (HttpGet (verify_url (Some sample_hash)) [])\<rparr>)
   \<and> sleeps (snd (waitForConfirmation sample_numToString gateway_not_found (Some sample_hash)
         (Some 5) (Some 2000) w0)) = 0"
proof -
  have nf: "\<forall>j. not_found (gateway_not_found (calls w0 + j) (verify_url (Some sample_hash)) [])"
    by (simp add: not_found_def gateway_not_found_def)
  have five: "sample_numToString (Fin (of_int 5)) = ''5''"
    by (simp add: sample_numToString_def show_nat.simps)
  have run: "waitForConfirmation sample_numToString gateway_not_found (Some sample_hash) (Some 5)
       (Some 2000) w0
     = (Inl (Error (''Transaction '' @ sample_hash @ '' not confirmed after 5 attempts'')),
        \<lparr>calls = 5, events = replicate 5 (HttpGet (verify_url (Some sample_hash)) [])\<rparr>)"
    using sample_hash_ok nf five
      wait_loop_not_found [where txHash = "Some sample_hash" and http = gateway_not_found
        and w = w0 and n = 5 and maxAttempts = 5 and i = 0
        and numToString = sample_numToString and ms = 2000]
    by (simp add: waitForConfirmation_def hash_checks_pass sample_hash_ok w0_def template_def)
  show ?thesis
    unfolding run by (simp add: sleeps_def is_sleep_def)
qed

section \<open>Payment submission\<close>

lemma js_gt_zero: "p \<noteq> NaN \<Longrightarrow> js_gt p (Fin 0) = (\<not> js_le p (Fin 0))"
  by (cases p) (auto simp: js_gt_def)

lemma submit_checks_pass:
  "checked_preconditions m txHash commission chainArg tokenArg priceUsd \<Longrightarrow>
   submit_checks numToString m txHash commission (chain_or_default chainArg)
     (token_or_default tokenArg) priceUsd = Inr ()"
  unfolding checked_preconditions_def well_formed_mandate_def well_formed_hash_def
    submit_checks_def validateRequired_def validateMandateToken_def validateTxHash_def
    validateChain_def validateToken_def validateAmount_def isNaN_def
  by (cases m; cases txHash; cases commission; cases priceUsd)
     (auto simp: truthy_str_def template_def js_gt_zero Let_def)

lemma submit_checks_fail:
  "\<not> checked_preconditions m txHash commission chainArg tokenArg priceUsd \<Longrightarrow>
   \<exists>msg. submit_checks numToString m txHash commission (chain_or_default chainArg)
     (token_or_default tokenArg) priceUsd = Inl (ValidationError msg)"
  unfolding checked_preconditions_def well_formed_mandate_def well_formed_hash_def
    submit_checks_def validateRequired_def validateMandateToken_def validateTxHash_def
    validateChain_def validateToken_def validateAmount_def isNaN_def
  by (cases m; cases txHash; cases commission; cases priceUsd)
     (auto simp: truthy_str_def template_def js_gt_zero Let_def)


lemma sample_mandate_ok: "well_formed_mandate (Some sample_mandate)"
  by (simp add: well_formed_mandate_def truthy_str_def template_def sample_mandate_def)

lemma sample_submission_ok:
  "checked_preconditions (Some sample_mandate) (Some sample_hash) None None None None"
  using sample_mandate_ok sample_hash_ok
  by (simp add: checked_preconditions_def chain_or_default_def token_or_default_def
        SUPPORTED_CHAINS_def SUPPORTED_TOKENS_def)

lemma submitTxHash_checked:
  assumes "checked_preconditions m txHash commission chainArg tokenArg priceUsd"
  shows "submitTxHash numToString http m txHash commission chainArg tokenArg priceUsd w =
      (case http (calls w) (submit_url numToString chainArg tokenArg priceUsd)
              (submit_headers m txHash commission) of
         Inr response \<Rightarrow>
           Inr \<lparr>spr_success = True, spr_status = Completed,
                spr_txHash = template txHash,
                spr_txHashCommission = commission,
                spr_amountUsd =
                  first_truthy
                    [case data response of None \<Rightarrow> None | Some d \<Rightarrow> amount_usd d, priceUsd]
                    (Fin 0),
                spr_budgetRemaining =
                  first_truthy
                    [case data response of None \<Rightarrow> None | Some d \<Rightarrow> rd_budget_remaining d]
                    (Fin 0),
                spr_resource = data response,
                spr_error = None\<rparr>
       | Inl err \<Rightarrow>
           (case err of
              InvalidTransactionError msg reason \<Rightarrow> Inr (failed_result txHash commission reason)
            | _ \<Rightarrow> Inl err),
       w\<lparr>calls := Suc (calls w),
         events := events w @ [HttpGet (submit_url numToString chainArg tokenArg priceUsd)
                                 (submit_headers m txHash commission)]\<rparr>)"
proof -
  let ?url = "submit_url numToString chainArg tokenArg priceUsd"
  let ?hs = "submit_headers m txHash commission"
  let ?w1 = "w\<lparr>calls := Suc (calls w), events := events w @ [HttpGet ?url ?hs]\<rparr>"
  have unfold: "submitTxHash numToString http m txHash commission chainArg tokenArg priceUsd w =
      (case (http (calls w) ?url ?hs, ?w1) of
            (Inr response, w') \<Rightarrow>
              (Inr \<lparr>spr_success = True, spr_status = Completed,
                    spr_txHash = template txHash,
                    spr_txHashCommission = commission,
                    spr_amountUsd =
                      first_truthy
                        [case data response of None \<Rightarrow> None | Some d \<Rightarrow> amount_usd d, priceUsd]
                        (Fin 0),
                    spr_budgetRemaining =
                      first_truthy
                        [case data response of None \<Rightarrow> None | Some d \<Rightarrow> rd_budget_remaining d]
                        (Fin 0),
                    spr_resource = data response,
                    spr_error = None\<rparr>, w')
          | (Inl error, w') \<Rightarrow>
              (case error of
                 InvalidTransactionError m reason \<Rightarrow>
                   (Inr \<lparr>spr_success = False, spr_status = Failed,
                         spr_txHash = template txHash,
                         spr_txHashCommission = commission,
                         spr_amountUsd = Fin 0,
                         spr_budgetRemaining = Fin 0,
                         spr_resource = None,
                         spr_error = Some reason\<rparr>, w')
               | _ \<Rightarrow> (Inl error, w')))"
    using submit_checks_pass [OF assms, of numToString]
    unfolding submitTxHash_def Let_def http_get_def submit_url_def submit_headers_def
      chain_or_default_def token_or_default_def
    by simp
  show ?thesis
  proof (cases "http (calls w) ?url ?hs")
    case (Inr response)
    then show ?thesis unfolding unfold by simp
  next
    case (Inl err)
    then show ?thesis unfolding unfold by (cases err) (simp_all add: failed_result_def)
  qed
qed

text \<open>
  C3. For a submission that passes the local checks, when the transport throws on the
  request that the submission sends: an InvalidTransactionError becomes the returned
  result with \<open>success\<close> false, status failed and the reason of the gateway as its error,
  and nothing is thrown; any other error is thrown on to the caller as it is. In both
  cases that one request is all that was sent.
\<close>

theorem submitTxHash_invalid_transaction_is_a_result:
  assumes "checked_preconditions m txHash commission chainArg tokenArg priceUsd"
    and "http (calls w) (submit_url numToString chainArg tokenArg priceUsd)
           (submit_headers m txHash commission) = Inl err"
  shows "submitTxHash numToString http m txHash commission chainArg tokenArg priceUsd w
           = (case err of
                InvalidTransactionError msg reason \<Rightarrow>
                  Inr \<lparr>spr_success = False, spr_status = Failed, spr_txHash = template txHash,
                       spr_txHashCommission = commission, spr_amountUsd = Fin 0,
                       spr_budgetRemaining = Fin 0, spr_resource = None,
                       spr_error = Some reason\<rparr>
              | _ \<Rightarrow> Inl err,
              w\<lparr>calls := Suc (calls w),
                events := events w @ [HttpGet (submit_url numToString chainArg tokenArg priceUsd)
                                        (submit_headers m txHash commission)]\<rparr>)"
  unfolding submitTxHash_checked [OF assms(1)] assms(2)
  by (cases err) (simp_all add: failed_result_def)

theorem submitTxHash_invalid_transaction_is_a_result_witness:
  "checked_preconditions (Some sample_mandate) (Some sample_hash) None None None None
   \<and> gateway_rejects (calls w0) (submit_url sample_numToString None None None)
         (submit_headers (Some sample_mandate) (Some sample_hash) None)
       = Inl (InvalidTransactionError ''Invalid transaction: amount mismatch''
                ''amount mismatch'')
   \<and> fst (submitTxHash sample_numToString gateway_rejects (Some sample_mandate)
           (Some sample_hash) None None None None w0)
       = Inr \<lparr>spr_success = False, spr_status = Failed, spr_txHash = sample_hash,
              spr_txHashCommission = None, spr_amountUsd = Fin 0,
              spr_budgetRemaining = Fin 0, spr_resource = None,
              spr_error = Some ''amount mismatch''\<rparr>
   \<and> calls (snd (submitTxHash sample_numToString gateway_rejects (Some sample_mandate)
           (Some sample_hash) None None None None w0)) = 1
   \<and> fst (submitTxHash sample_numToString gateway_unauthorized (Some sample_mandate)
           (Some sample_hash) None None None None w0)
       = Inl (AuthenticationError ''Invalid API key'')"
proof -
  have r: "gateway_rejects (calls w0) (submit_url sample_numToString None None None)
         (submit_headers (Some sample_mandate) (Some sample_hash) None)
       = Inl (InvalidTransactionError ''Invalid transaction: amount mismatch''
                ''amount mismatch'')"
    by (simp add: gateway_rejects_def submit_url_def chain_or_default_def
          token_or_default_def)
  have u: "gateway_unauthorized (calls w0) (submit_url sample_numToString None None None)
         (submit_headers (Some sample_mandate) (Some sample_hash) None)
       = Inl (AuthenticationError ''Invalid API key'')"
    by (simp add: gateway_unauthorized_def)
  note run1 = submitTxHash_invalid_transaction_is_a_result
    [where http = gateway_rejects and w = w0 and numToString = sample_numToString,
     OF sample_submission_ok r]
  note run2 = submitTxHash_invalid_transaction_is_a_result
    [where http = gateway_unauthorized and w = w0 and numToString = sample_numToString,
     OF sample_submission_ok u]
  have r1: "fst (submitTxHash sample_numToString gateway_rejects (Some sample_mandate)
           (Some sample_hash) None None None None w0)
       = Inr \<lparr>spr_success = False, spr_status = Failed, spr_txHash = sample_hash,
              spr_txHashCommission = None, spr_amountUsd = Fin 0,
              spr_budgetRemaining = Fin 0, spr_resource = None,
              spr_error = Some ''amount mismatch''\<rparr>"
    unfolding run1 by (simp add: template_def)
  have c1: "calls (snd (submitTxHash sample_numToString gateway_rejects (Some sample_mandate)
           (Some sample_hash) None None None None w0)) = 1"
    unfolding run1 by (simp add: w0_def)
  have r2: "fst (submitTxHash sample_numToString gateway_unauthorized (Some sample_mandate)
           (Some sample_hash) None None None None w0)
       = Inl (AuthenticationError ''Invalid API key'')"
    unfolding run2 by simp
  from sample_submission_ok r r1 c1 r2 show ?thesis by (intro conjI)
qed

text \<open>
  C9, as the code has it. A submission that fails a check of the code is refused with a
  ValidationError and the world is untouched: no request is made. The checks of the code
  are those of the specification but for two: an empty commission hash is read as no
  commission, and a price is checked to be a number above zero, so that infinity passes.
  A submission that passes the checks makes exactly one request.
\<close>

theorem submitTxHash_refuses_before_any_request:
  "(\<not> checked_preconditions m txHash commission chainArg tokenArg priceUsd \<longrightarrow>
      (\<exists>msg. submitTxHash numToString http m txHash commission chainArg tokenArg priceUsd w
               = (Inl (ValidationError msg), w)))
   \<and> (checked_preconditions m txHash commission chainArg tokenArg priceUsd \<longrightarrow>
      calls (snd (submitTxHash numToString http m txHash commission chainArg tokenArg
                    priceUsd w)) = Suc (calls w)
      \<and> polls (snd (submitTxHash numToString http m txHash commission chainArg tokenArg
                    priceUsd w)) = Suc (polls w))"
proof (intro conjI impI)
  assume "\<not> checked_preconditions m txHash commission chainArg tokenArg priceUsd"
  from submit_checks_fail [OF this, of numToString]
  show "\<exists>msg. submitTxHash numToString http m txHash commission chainArg tokenArg priceUsd w
               = (Inl (ValidationError msg), w)"
    by (auto simp: submitTxHash_def chain_or_default_def token_or_default_def)
next
  assume ok: "checked_preconditions m txHash commission chainArg tokenArg priceUsd"
  have "snd (submitTxHash numToString http m txHash commission chainArg tokenArg priceUsd w)
       = w\<lparr>calls := Suc (calls w),
           events := events w @ [HttpGet (submit_url numToString chainArg tokenArg priceUsd)
                                   (submit_headers m txHash commission)]\<rparr>"
    unfolding submitTxHash_checked [OF ok] by simp
  then show "calls (snd (submitTxHash numToString http m txHash commission chainArg tokenArg
                    priceUsd w)) = Suc (calls w)"
    and "polls (snd (submitTxHash numToString http m txHash commission chainArg tokenArg
                    priceUsd w)) = Suc (polls w)"
    by (simp_all add: polls_def is_http_get_def)
qed

theorem submitTxHash_refuses_before_any_request_witness:
  "\<not> checked_preconditions (Some sample_mandate) (Some ''0x12'') None None None None
   \<and> submitTxHash sample_numToString gateway_accepts (Some sample_mandate) (Some ''0x12'')
         None None None None w0
       = (Inl (ValidationError ''Invalid transaction hash: 0x12''), w0)
   \<and> \<not> checked_preconditions (Some sample_mandate) (Some sample_hash) None None None
         (Some (Fin 0))
   \<and> fst (submitTxHash sample_numToString gateway_accepts (Some sample_mandate)
           (Some sample_hash) None None None (Some (Fin 0)) w0)
       = Inl (ValidationError ''priceUsd must be a positive number, got: 0'')
   \<and> checked_preconditions (Some sample_mandate) (Some sample_hash) None None None None
   \<and> calls (snd (submitTxHash sample_numToString gateway_accepts (Some sample_mandate)
           (Some sample_hash) None None None None w0)) = 1"
proof -
  have a: "\<not> checked_preconditions (Some sample_mandate) (Some ''0x12'') None None None None"
    by (simp add: checked_preconditions_def well_formed_hash_def txHashRegex_test_def template_def)
  have b: "\<not> checked_preconditions (Some sample_mandate) (Some sample_hash) None None None
         (Some (Fin 0))"
    by (simp add: checked_preconditions_def js_gt_def)
  have c: "submit_checks sample_numToString (Some sample_mandate) (Some ''0x12'') None ''base''
             ''USDC'' None = Inl (ValidationError ''Invalid transaction hash: 0x12'')"
    using sample_mandate_ok
    by (simp add: submit_checks_def validateRequired_def validateMandateToken_def
          well_formed_mandate_def validateTxHash_def txHashRegex_test_def template_def
          truthy_str_def)
  have z: "sample_numToString (Fin 0) = ''0''"
    by (simp add: sample_numToString_def show_nat.simps)
  have d: "submit_checks sample_numToString (Some sample_mandate) (Some sample_hash) None ''base''
             ''USDC'' (Some (Fin 0))
           = Inl (ValidationError ''priceUsd must be a positive number, got: 0'')"
    using sample_mandate_ok sample_hash_ok z
    by (simp add: submit_checks_def validateRequired_def validateMandateToken_def
          well_formed_mandate_def validateTxHash_def well_formed_hash_def template_def
          truthy_str_def validateChain_def validateToken_def SUPPORTED_CHAINS_def
          SUPPORTED_TOKENS_def validateAmount_def isNaN_def)
  have r1: "submitTxHash sample_numToString gateway_accepts (Some sample_mandate) (Some ''0x12'')
         None None None None w0
       = (Inl (ValidationError ''Invalid transaction hash: 0x12''), w0)"
    by (simp add: submitTxHash_def c)
  have r2: "fst (submitTxHash sample_numToString gateway_accepts (Some sample_mandate)
           (Some sample_hash) None None None (Some (Fin 0)) w0)
       = Inl (ValidationError ''priceUsd must be a positive number, got: 0'')"
    by (simp add: submitTxHash_def d)
  have r3: "calls (snd (submitTxHash sample_numToString gateway_accepts (Some sample_mandate)
           (Some sample_hash) None None None None w0)) = 1"
    using sample_submission_ok
      submitTxHash_refuses_before_any_request
        [of "Some sample_mandate" "Some sample_hash" None None None None sample_numToString
            gateway_accepts w0]
    by (simp add: w0_def)
  from a r1 b r2 sample_submission_ok r3 show ?thesis by (intro conjI)
qed

theorem submitTxHash_infinite_price_counterexample:
  "\<not> stated_preconditions (Some sample_mandate) (Some sample_hash) None None None (Some PosInf)
   \<and> fst (submitTxHash sample_numToString gateway_accepts (Some sample_mandate)
           (Some sample_hash) None None None (Some PosInf) w0)
       = Inr \<lparr>spr_success = True, spr_status = Completed, spr_txHash = sample_hash,
              spr_txHashCommission = None, spr_amountUsd = Fin 3,
              spr_budgetRemaining = Fin 7,
              spr_resource = Some \<lparr>amount_usd = Some (Fin 3),
                                    rd_budget_remaining = Some (Fin 7)\<rparr>,
              spr_error = None\<rparr>
   \<and> calls (snd (submitTxHash sample_numToString gateway_accepts (Some sample_mandate)
           (Some sample_hash) None None None (Some PosInf) w0)) = 1
   \<and> \<not> stated_preconditions (Some sample_mandate) (Some sample_hash) (Some []) None None None
   \<and> calls (snd (submitTxHash sample_numToString gateway_accepts (Some sample_mandate)
           (Some sample_hash) (Some []) None None None w0)) = 1"
proof -
  have p: "checked_preconditions (Some sample_mandate) (Some sample_hash) None None None
             (Some PosInf)"
    using sample_submission_ok by (simp add: checked_preconditions_def js_gt_def)
  have q: "checked_preconditions (Some sample_mandate) (Some sample_hash) (Some []) None None
             None"
    using sample_submission_ok by (simp add: checked_preconditions_def)
  have n1: "\<not> stated_preconditions (Some sample_mandate) (Some sample_hash) None None None
              (Some PosInf)"
    by (simp add: stated_preconditions_def finite_positive_def)
  have n2: "\<not> stated_preconditions (Some sample_mandate) (Some sample_hash) (Some []) None None
              None"
    by (simp add: stated_preconditions_def txHashRegex_test_def)
  have run: "submit_checks sample_numToString (Some sample_mandate) (Some sample_hash) None
               ''base'' ''USDC'' (Some PosInf) = Inr ()"
    using submit_checks_pass [OF p, of sample_numToString]
    by (simp add: chain_or_default_def token_or_default_def)
  have r1: "fst (submitTxHash sample_numToString gateway_accepts (Some sample_mandate)
           (Some sample_hash) None None None (Some PosInf) w0)
       = Inr \<lparr>spr_success = True, spr_status = Completed, spr_txHash = sample_hash,
              spr_txHashCommission = None, spr_amountUsd = Fin 3,
              spr_budgetRemaining = Fin 7,
              spr_resource = Some \<lparr>amount_usd = Some (Fin 3),
                                    rd_budget_remaining = Some (Fin 7)\<rparr>,
              spr_error = None\<rparr>"
    using run by (simp add: submitTxHash_def http_get_def gateway_accepts_def template_def)
  have c1: "calls (snd (submitTxHash sample_numToString gateway_accepts (Some sample_mandate)
           (Some sample_hash) None None None (Some PosInf) w0)) = 1"
    unfolding submitTxHash_checked [OF p] by (simp add: w0_def)
  have c2: "calls (snd (submitTxHash sample_numToString gateway_accepts (Some sample_mandate)
           (Some sample_hash) (Some []) None None None w0)) = 1"
    unfolding submitTxHash_checked [OF q] by (simp add: w0_def)
  from n1 r1 c1 n2 c2 show ?thesis by (intro conjI)
qed

section \<open>Mandate renewal\<close>

lemma not_gt_dust: "b \<noteq> NaN \<Longrightarrow> (\<not> js_gt b dust) = js_le b dust"
  by (cases b) (auto simp: js_gt_def dust_def)

lemma create_new_mandate_result:
  "create_new_mandate c this w =
     (case issue_answer c this (calls w) of
        Inl e \<Rightarrow> (Inl e, this, after_issue this w)
      | Inr m \<Rightarrow>
          (if date_in_range (expiresAt m * 1000) then Inr (mandateToken m)
           else Inl (RangeError ''Invalid time value''),
           with_mandate m this, after_issue this w))"
  by (simp add: create_new_mandate_def call_issue_def issue_answer_def after_issue_def
        issue_event_def with_mandate_def Let_def split: sum.splits)

lemma usable_iff:
  "(truthy_str (cachedMandateToken this)
      \<and> (case mandateExpiresAt this of None \<Rightarrow> False | Some t \<Rightarrow> t \<noteq> 0 \<and> t > now))
   = (\<not> (cache_absent this \<or> locally_expired now this))"
  by (auto simp: cache_absent_def locally_expired_def split: option.splits)

lemma ensure_unverified:
  assumes "cache_absent this \<or> locally_expired now this"
  shows "ensureMandateValid parseFloat c now this w = create_new_mandate c this w"
proof -
  have "\<not> (truthy_str (cachedMandateToken this)
      \<and> (case mandateExpiresAt this of None \<Rightarrow> False | Some t \<Rightarrow> t \<noteq> 0 \<and> t > now))"
    using assms usable_iff [of this now] by blast
  then show ?thesis unfolding ensureMandateValid_def by (rule if_not_P)
qed

lemma ensure_verified:
  assumes "\<not> (cache_absent this \<or> locally_expired now this)"
  shows "ensureMandateValid parseFloat c now this w =
     (case verify_answer c this w of
        Inl e \<Rightarrow> create_new_mandate c this (after_verify this w)
      | Inr verification \<Rightarrow>
          if valid verification then
            (case payload verification of
               None \<Rightarrow> create_new_mandate c this (after_verify this w)
             | Some p \<Rightarrow>
                 if js_gt (parseFloat (budget_remaining p)) dust
                 then (Inr (cached_token this), this, after_verify this w)
                 else create_new_mandate c this (after_verify this w))
          else create_new_mandate c this (after_verify this w))"
proof -
  have cond: "truthy_str (cachedMandateToken this)
      \<and> (case mandateExpiresAt this of None \<Rightarrow> False | Some t \<Rightarrow> t \<noteq> 0 \<and> t > now)"
    using assms usable_iff [of this now] by blast
  show ?thesis
    unfolding ensureMandateValid_def if_P [OF cond]
    by (simp add: call_verify_def verify_answer_def cached_token_def after_verify_def Let_def
          split: sum.splits option.splits)
qed

lemma ensure_reuse:
  assumes "\<not> (cache_absent this \<or> locally_expired now this)"
    and "budget_above_dust parseFloat (verify_answer c this w)"
  shows "ensureMandateValid parseFloat c now this w
     = (Inr (cached_token this), this, after_verify this w)"
proof (cases "verify_answer c this w")
  case (Inl e)
  then show ?thesis using assms(2) by (simp add: budget_above_dust_def)
next
  case (Inr v)
  then obtain p where "valid v" "payload v = Some p"
      "js_gt (parseFloat (budget_remaining p)) dust"
    using assms(2) by (auto simp: budget_above_dust_def split: option.splits)
  then show ?thesis
    unfolding ensure_verified [OF assms(1)] Inr by simp
qed

lemma ensure_verified_renewal:
  assumes "\<not> (cache_absent this \<or> locally_expired now this)"
    and "\<not> budget_above_dust parseFloat (verify_answer c this w)"
  shows "ensureMandateValid parseFloat c now this w
     = create_new_mandate c this (after_verify this w)"
proof (cases "verify_answer c this w")
  case (Inl e)
  then show ?thesis unfolding ensure_verified [OF assms(1)] by simp
next
  case (Inr v)
  show ?thesis
  proof (cases "payload v")
    case None
    then show ?thesis unfolding ensure_verified [OF assms(1)] Inr by simp
  next
    case (Some p)
    then have "valid v \<Longrightarrow> \<not> js_gt (parseFloat (budget_remaining p)) dust"
      using assms(2) Inr by (simp add: budget_above_dust_def)
    then show ?thesis unfolding ensure_verified [OF assms(1)] Inr using Some by auto
  qed
qed

lemma above_dust_iff:
  "answer_in_shape parseFloat r \<Longrightarrow>
   (\<not> budget_above_dust parseFloat r)
     = (verify_errors r \<or> reports_invalid r \<or> budget_at_most_dust parseFloat r)"
  by (auto simp: answer_in_shape_def budget_above_dust_def verify_errors_def
        reports_invalid_def budget_at_most_dust_def not_gt_dust
        split: sum.splits option.splits if_splits)


lemma new_events_simps:
  "new_events w (after_issue this w) = [issue_event this]"
  "new_events w (after_verify this w) = [MandateVerify (cached_token this)]"
  "new_events w (after_issue this (after_verify this w))
     = [MandateVerify (cached_token this), issue_event this]"
  "new_events w (after_verify this (after_verify this w))
     = [MandateVerify (cached_token this), MandateVerify (cached_token this)]"
  by (simp_all add: new_events_def after_issue_def after_verify_def)

lemma calls_simps:
  "calls (after_issue this w) = Suc (calls w)"
  "calls (after_verify this w) = Suc (calls w)"
  by (simp_all add: after_issue_def after_verify_def)

lemma issued_simps:
  "issued w (after_issue this w)"
  "\<not> issued w (after_verify this w)"
  "issued w (after_issue this (after_verify this w))"
  "\<not> issued w (after_verify this (after_verify this w))"
  by (simp_all add: issued_def new_events_simps is_mandate_issue_def issue_event_def)

lemma create_new_mandate_outcome:
  "create_new_mandate c this w = (res, this', w') \<Longrightarrow>
   w' = after_issue this w \<and> renewal_outcome c this (calls w) res this'"
  by (auto simp: create_new_mandate_result renewal_outcome_def split: sum.splits)

lemma ensure_outcome_unverified:
  assumes run: "ensureMandateValid parseFloat c now this w = (res, this', w')"
    and a: "cache_absent this \<or> locally_expired now this"
  shows "w' = after_issue this w" and "renewal_outcome c this (calls w) res this'"
proof -
  have "create_new_mandate c this w = (res, this', w')"
    using run ensure_unverified [OF a, of parseFloat c w] by simp
  from create_new_mandate_outcome [OF this]
  show "w' = after_issue this w" and "renewal_outcome c this (calls w) res this'"
    by simp_all
qed

lemma ensure_outcome_renewed:
  assumes run: "ensureMandateValid parseFloat c now this w = (res, this', w')"
    and a: "\<not> (cache_absent this \<or> locally_expired now this)"
    and b: "\<not> budget_above_dust parseFloat (verify_answer c this w)"
  shows "w' = after_issue this (after_verify this w)"
    and "renewal_outcome c this (Suc (calls w)) res this'"
proof -
  have "create_new_mandate c this (after_verify this w) = (res, this', w')"
    using run ensure_verified_renewal [OF a b] by simp
  from create_new_mandate_outcome [OF this]
  show "w' = after_issue this (after_verify this w)"
    and "renewal_outcome c this (Suc (calls w)) res this'"
    by (simp_all add: calls_simps)
qed

lemma ensure_outcome_reused:
  assumes run: "ensureMandateValid parseFloat c now this w = (res, this', w')"
    and a: "\<not> (cache_absent this \<or> locally_expired now this)"
    and b: "budget_above_dust parseFloat (verify_answer c this w)"
  shows "w' = after_verify this w" and "res = Inr (cached_token this)" and "this' = this"
proof -
  have "(res, this', w') = (Inr (cached_token this), this, after_verify this w)"
    by (simp add: run [symmetric] ensure_reuse [OF a b])
  then show "w' = after_verify this w" and "res = Inr (cached_token this)" and "this' = this"
    by simp_all
qed

lemma renewal_needed_iff:
  assumes "answer_in_shape parseFloat (verify_answer c this w)"
  shows "renewal_needed parseFloat c now this w
       = (cache_absent this \<or> locally_expired now this
          \<or> \<not> budget_above_dust parseFloat (verify_answer c this w))"
  using above_dust_iff [OF assms] by (auto simp: renewal_needed_def)

lemma not_gt_dust_cases: "(\<not> js_gt b dust) = (b = NaN \<or> js_le b dust)"
  by (cases b) (auto simp: js_gt_def dust_def)

lemma not_above_dust_iff:
  "(\<not> budget_above_dust parseFloat r)
     = (verify_errors r \<or> reports_invalid r \<or> budget_not_confirmed parseFloat r)"
proof (cases r)
  case (Inl e)
  then show ?thesis
    by (simp add: budget_above_dust_def verify_errors_def)
next
  case (Inr v)
  show ?thesis
  proof (cases "payload v")
    case None
    with Inr show ?thesis
      by (simp add: budget_above_dust_def verify_errors_def reports_invalid_def
            budget_not_confirmed_def)
  next
    case (Some p)
    with Inr show ?thesis
      using not_gt_dust_cases [of "parseFloat (budget_remaining p)"]
      by (auto simp: budget_above_dust_def verify_errors_def reports_invalid_def
            budget_not_confirmed_def)
  qed
qed

lemma renewal_decided_iff:
  "renewal_decided parseFloat c now this w
     = (cache_absent this \<or> locally_expired now this
        \<or> \<not> budget_above_dust parseFloat (verify_answer c this w))"
  unfolding renewal_decided_def not_above_dust_iff by blast

lemma renewal_decided_in_shape:
  assumes "answer_in_shape parseFloat (verify_answer c this w)"
  shows "renewal_decided parseFloat c now this w = renewal_needed parseFloat c now this w"
  unfolding renewal_decided_iff renewal_needed_iff [OF assms] ..

text \<open>
  C1, as the code has it. A mandate is issued exactly when the cache is absent, the
  recorded expiry has passed, the verify call throws or reports invalid, or the answer
  reported valid does not confirm a budget above 0.01: the budget is at most 0.01, or is
  not a number, or the payload is missing. With the cache absent or expired the only
  remote call is the issue call; otherwise one verify call comes first, and it is the only
  call when nothing is renewed. When nothing is renewed the cached token is returned and
  the loader is unchanged. When a mandate is issued the outcome is that of the issue call
  alone, whatever the verify call said or threw: its error is thrown to the caller with
  the loader unchanged, and its mandate is cached and its token returned, but for an
  expiry outside the range of dates, where formatting it throws a RangeError after the
  cache has been replaced.
\<close>

theorem ensureMandateValid_renews_exactly_when_needed:
  "(case ensureMandateValid parseFloat c now this w of (res, this', w') \<Rightarrow>
      issued w w' = renewal_decided parseFloat c now this w
    \<and> new_events w w'
        = (if cache_absent this \<or> locally_expired now this then []
           else [MandateVerify (cached_token this)])
          @ (if renewal_decided parseFloat c now this w then [issue_event this] else [])
    \<and> (\<not> renewal_decided parseFloat c now this w \<longrightarrow>
         res = Inr (cached_token this) \<and> this' = this)
    \<and> (renewal_decided parseFloat c now this w \<longrightarrow>
         (case issue_answer c this (calls w' - 1) of
            Inl e \<Rightarrow> res = Inl e \<and> this' = this
          | Inr m \<Rightarrow>
              this' = with_mandate m this
              \<and> res = (if date_in_range (expiresAt m * 1000) then Inr (mandateToken m)
                        else Inl (RangeError ''Invalid time value'')))))"
proof -
  obtain res this' w' where run: "ensureMandateValid parseFloat c now this w = (res, this', w')"
    by (cases "ensureMandateValid parseFloat c now this w") auto
  note dec = renewal_decided_iff [of parseFloat c now this w]
  consider (unverified) "cache_absent this \<or> locally_expired now this"
    | (renewed) "\<not> (cache_absent this \<or> locally_expired now this)"
        "\<not> budget_above_dust parseFloat (verify_answer c this w)"
    | (reused) "\<not> (cache_absent this \<or> locally_expired now this)"
        "budget_above_dust parseFloat (verify_answer c this w)"
    by blast
  then have "issued w w' = renewal_decided parseFloat c now this w
    \<and> new_events w w'
        = (if cache_absent this \<or> locally_expired now this then []
           else [MandateVerify (cached_token this)])
          @ (if renewal_decided parseFloat c now this w then [issue_event this] else [])
    \<and> (\<not> renewal_decided parseFloat c now this w \<longrightarrow>
         res = Inr (cached_token this) \<and> this' = this)
    \<and> (renewal_decided parseFloat c now this w \<longrightarrow>
         (case issue_answer c this (calls w' - 1) of
            Inl e \<Rightarrow> res = Inl e \<and> this' = this
          | Inr m \<Rightarrow>
              this' = with_mandate m this
              \<and> res = (if date_in_range (expiresAt m * 1000) then Inr (mandateToken m)
                        else Inl (RangeError ''Invalid time value''))))"
  proof cases
    case unverified
    note w' = ensure_outcome_unverified(1) [OF run unverified]
    note ro = ensure_outcome_unverified(2) [OF run unverified]
    have nd: "renewal_decided parseFloat c now this w" using unverified dec by blast
    have ab: "(cache_absent this \<or> locally_expired now this) = True" using unverified by simp
    show ?thesis
      using ro unfolding renewal_outcome_def
      by (simp only: w' nd ab issued_simps new_events_simps calls_simps if_True
            diff_Suc_1 append_Nil simp_thms)
  next
    case renewed
    note w' = ensure_outcome_renewed(1) [OF run renewed]
    note ro = ensure_outcome_renewed(2) [OF run renewed]
    have nd: "renewal_decided parseFloat c now this w" using renewed dec by blast
    have ab: "(cache_absent this \<or> locally_expired now this) = False" using renewed(1) by simp
    show ?thesis
      using ro unfolding renewal_outcome_def
      by (simp only: w' nd ab issued_simps new_events_simps calls_simps if_True if_False
            diff_Suc_1 append.simps simp_thms)
  next
    case reused
    note w' = ensure_outcome_reused(1) [OF run reused]
    note r = ensure_outcome_reused(2) [OF run reused]
    note t = ensure_outcome_reused(3) [OF run reused]
    have nd: "renewal_decided parseFloat c now this w = False" using reused dec by blast
    have ab: "(cache_absent this \<or> locally_expired now this) = False" using reused(1) by simp
    show ?thesis
      by (simp only: w' r t nd ab issued_simps new_events_simps if_False append_Nil2
            simp_thms)
  qed
  then show ?thesis unfolding run prod.case .
qed

lemma cached_loader_usable:
  "\<not> (cache_absent cached_loader \<or> locally_expired 1700000000000 cached_loader)"
  by (simp add: cache_absent_def locally_expired_def cached_loader_def sample_loader_def
        truthy_str_def sample_mandate_def)

lemma cached_loader_token: "cached_token cached_loader = sample_mandate"
  by (simp add: cached_token_def cached_loader_def template_def)

lemma sample_answers:
  "verify_answer sample_client cached_loader w
     = Inr \<lparr>valid = True, payload = Some (sample_payload ''7.00''), vm_error = None\<rparr>"
  "verify_answer exhausted_client cached_loader w
     = Inr \<lparr>valid = True, payload = Some (sample_payload ''0.00''), vm_error = None\<rparr>"
  "issue_answer exhausted_client this n
     = Inl (MandateError ''Failed to issue mandate'' ''ISSUE_FAILED'')"
  "issue_answer sample_client this n
     = Inr \<lparr>mandateId = ''mandate-1'', mandateToken = sample_mandate,
             issuedAt = 1700000000, expiresAt = 1700003600\<rparr>"
  by (simp_all add: verify_answer_def issue_answer_def sample_client_def exhausted_client_def)

lemma sample_budgets:
  "budget_above_dust sample_parseFloat (verify_answer sample_client cached_loader w)"
  "\<not> budget_above_dust sample_parseFloat (verify_answer exhausted_client cached_loader w)"
  "budget_at_most_dust sample_parseFloat (verify_answer exhausted_client cached_loader w)"
  "answer_in_shape sample_parseFloat (verify_answer sample_client cached_loader w)"
  "answer_in_shape sample_parseFloat (verify_answer exhausted_client cached_loader w)"
  by (simp_all add: sample_answers budget_above_dust_def budget_at_most_dust_def
        answer_in_shape_def sample_payload_def sample_parseFloat_def js_gt_def dust_def)

lemma exhausted_run:
  "ensureMandateValid sample_parseFloat exhausted_client 1700000000000 cached_loader w0
     = (Inl (MandateError ''Failed to issue mandate'' ''ISSUE_FAILED''), cached_loader,
        after_issue cached_loader (after_verify cached_loader w0))"
  using ensure_verified_renewal [OF cached_loader_usable sample_budgets(2) [of w0]]
  by (simp add: create_new_mandate_result sample_answers)

lemma sample_decisions:
  "renewal_decided sample_parseFloat exhausted_client 1700000000000 cached_loader w0"
  "\<not> renewal_decided sample_parseFloat sample_client 1700000000000 cached_loader w0"
  using cached_loader_usable sample_budgets(1,2) [of w0]
  by (simp_all add: renewal_decided_iff)

theorem ensureMandateValid_renews_exactly_when_needed_witness:
  "renewal_decided sample_parseFloat exhausted_client 1700000000000 cached_loader w0
   \<and> ensureMandateValid sample_parseFloat exhausted_client 1700000000000 cached_loader w0
       = (Inl (MandateError ''Failed to issue mandate'' ''ISSUE_FAILED''), cached_loader,
          after_issue cached_loader (after_verify cached_loader w0))
   \<and> new_events w0 (after_issue cached_loader (after_verify cached_loader w0))
       = [MandateVerify sample_mandate, issue_event cached_loader]
   \<and> \<not> renewal_decided sample_parseFloat sample_client 1700000000000 cached_loader w0
   \<and> fst (ensureMandateValid sample_parseFloat sample_client 1700000000000 cached_loader w0)
       = Inr sample_mandate
   \<and> new_events w0 (snd (snd (ensureMandateValid sample_parseFloat sample_client
                                 1700000000000 cached_loader w0)))
       = [MandateVerify sample_mandate]"
proof -
  note t2 = ensureMandateValid_renews_exactly_when_needed
    [where parseFloat = sample_parseFloat and c = sample_client and now = 1700000000000
       and this = cached_loader and w = w0, unfolded case_prod_unfold]
  note t1 = ensureMandateValid_renews_exactly_when_needed
    [where parseFloat = sample_parseFloat and c = exhausted_client and now = 1700000000000
       and this = cached_loader and w = w0, unfolded case_prod_unfold]
  have ab: "(cache_absent cached_loader \<or> locally_expired 1700000000000 cached_loader) = False"
    using cached_loader_usable by simp
  have r2: "fst (ensureMandateValid sample_parseFloat sample_client 1700000000000 cached_loader
                  w0) = Inr sample_mandate"
    using t2 sample_decisions(2) by (simp add: cached_loader_token)
  have e2: "new_events w0 (snd (snd (ensureMandateValid sample_parseFloat sample_client
                                 1700000000000 cached_loader w0)))
       = [MandateVerify sample_mandate]"
    using t2 sample_decisions(2) by (simp add: ab cached_loader_token)
  have e1: "new_events w0 (after_issue cached_loader (after_verify cached_loader w0))
       = [MandateVerify sample_mandate, issue_event cached_loader]"
    using t1 sample_decisions(1) by (simp add: exhausted_run ab cached_loader_token)
  from sample_decisions(1) exhausted_run e1 sample_decisions(2) r2 e2
  show ?thesis by (intro conjI)
qed

lemma unparsed_answers:
  "verify_answer unparsed_client cached_loader w
     = Inr \<lparr>valid = True, payload = Some (sample_payload ''abc''), vm_error = None\<rparr>"
  "issue_answer unparsed_client this n = Inr renewed_mandate"
  by (simp_all add: verify_answer_def issue_answer_def unparsed_client_def)

theorem ensureMandateValid_unparsed_budget_counterexample:
  "\<not> renewal_needed sample_parseFloat unparsed_client 1700000000000 cached_loader w0
   \<and> ensureMandateValid sample_parseFloat unparsed_client 1700000000000 cached_loader w0
       = (Inr ''renewed.mandate.token'', with_mandate renewed_mandate cached_loader,
          after_issue cached_loader (after_verify cached_loader w0))
   \<and> issued w0 (after_issue cached_loader (after_verify cached_loader w0))"
proof -
  have n: "\<not> renewal_needed sample_parseFloat unparsed_client 1700000000000 cached_loader w0"
    using cached_loader_usable
    by (simp add: renewal_needed_def unparsed_answers verify_errors_def reports_invalid_def
          budget_at_most_dust_def sample_payload_def sample_parseFloat_def)
  have b: "\<not> budget_above_dust sample_parseFloat (verify_answer unparsed_client cached_loader w0)"
    by (simp add: unparsed_answers budget_above_dust_def sample_payload_def
          sample_parseFloat_def js_gt_def dust_def)
  have r: "ensureMandateValid sample_parseFloat unparsed_client 1700000000000 cached_loader w0
       = (Inr ''renewed.mandate.token'', with_mandate renewed_mandate cached_loader,
          after_issue cached_loader (after_verify cached_loader w0))"
    using ensure_verified_renewal [OF cached_loader_usable b]
    by (simp add: create_new_mandate_result unparsed_answers renewed_mandate_def
          date_in_range_def)
  from n r issued_simps(3) [of w0 cached_loader] show ?thesis by (intro conjI)
qed

lemma ensureMandateValid_out_of_range_expiry:
  "ensureMandateValid sample_parseFloat far_future_client 1700000000000 sample_loader w0
     = (Inl (RangeError ''Invalid time value''),
        with_mandate (renewed_mandate\<lparr>expiresAt := 10000000000000\<rparr>) sample_loader,
        after_issue sample_loader w0)"
proof -
  have "cache_absent sample_loader \<or> locally_expired 1700000000000 sample_loader"
    by (simp add: cache_absent_def sample_loader_def)
  from ensure_unverified [OF this] show ?thesis
    by (simp add: create_new_mandate_result issue_answer_def far_future_client_def
          renewed_mandate_def date_in_range_def)
qed

text \<open>
  C2. A cache that holds a token and an expiry still ahead of the clock, with the verify
  call answering valid with a budget above 0.01 on two calls in a row: both calls return
  the cached token, the loader is unchanged, and the only remote calls are the two verify
  calls, so no mandate is issued.
\<close>

theorem ensureMandateValid_reuse_twice:
  assumes "truthy_str (cachedMandateToken this)" and "mandateExpiresAt this = Some t"
    and "0 \<le> now1" and "now1 \<le> now2" and "now2 < t"
    and "budget_above_dust parseFloat (mandates_verify c (calls w) (cached_token this))"
    and "budget_above_dust parseFloat (mandates_verify c (Suc (calls w)) (cached_token this))"
  shows "ensureMandateValid parseFloat c now1 this w
           = (Inr (cached_token this), this, after_verify this w)
       \<and> ensureMandateValid parseFloat c now2 this (after_verify this w)
           = (Inr (cached_token this), this, after_verify this (after_verify this w))
       \<and> new_events w (after_verify this (after_verify this w))
           = [MandateVerify (cached_token this), MandateVerify (cached_token this)]
       \<and> \<not> issued w (after_verify this (after_verify this w))"
proof -
  have u1: "\<not> (cache_absent this \<or> locally_expired now1 this)"
    using assms(1-5) by (simp add: cache_absent_def locally_expired_def)
  have u2: "\<not> (cache_absent this \<or> locally_expired now2 this)"
    using assms(1-5) by (simp add: cache_absent_def locally_expired_def)
  have b1: "budget_above_dust parseFloat (verify_answer c this w)"
    using assms(6) by (simp add: verify_answer_def)
  have b2: "budget_above_dust parseFloat (verify_answer c this (after_verify this w))"
    using assms(7) by (simp add: verify_answer_def calls_simps)
  show ?thesis
    using ensure_reuse [OF u1 b1] ensure_reuse [OF u2 b2]
    by (simp add: new_events_simps issued_simps)
qed

theorem ensureMandateValid_reuse_twice_witness:
  "ensureMandateValid sample_parseFloat sample_client 1700000000000 sample_loader w0
     = (Inr sample_mandate, cached_loader, after_issue sample_loader w0)
   \<and> truthy_str (cachedMandateToken cached_loader)
   \<and> mandateExpiresAt cached_loader = Some 1700003600000
   \<and> ensureMandateValid sample_parseFloat sample_client 1700000000001 cached_loader
        (after_issue sample_loader w0)
       = (Inr sample_mandate, cached_loader,
          after_verify cached_loader (after_issue sample_loader w0))
   \<and> ensureMandateValid sample_parseFloat sample_client 1700000000002 cached_loader
        (after_verify cached_loader (after_issue sample_loader w0))
       = (Inr sample_mandate, cached_loader,
          after_verify cached_loader (after_verify cached_loader (after_issue sample_loader w0)))"
proof -
  have first: "ensureMandateValid sample_parseFloat sample_client 1700000000000 sample_loader w0
     = (Inr sample_mandate, cached_loader, after_issue sample_loader w0)"
  proof -
    have "cache_absent sample_loader \<or> locally_expired 1700000000000 sample_loader"
      by (simp add: cache_absent_def sample_loader_def)
    from ensure_unverified [OF this] show ?thesis
      by (simp add: create_new_mandate_result sample_answers date_in_range_def
            with_mandate_def cached_loader_def)
  qed
  have t: "truthy_str (cachedMandateToken cached_loader)"
    by (simp add: cached_loader_def truthy_str_def sample_mandate_def)
  have e: "mandateExpiresAt cached_loader = Some 1700003600000"
    by (simp add: cached_loader_def)
  have b1: "budget_above_dust sample_parseFloat
              (mandates_verify sample_client (calls (after_issue sample_loader w0))
                 (cached_token cached_loader))"
    using sample_budgets(1) by (simp add: verify_answer_def)
  have b2: "budget_above_dust sample_parseFloat
              (mandates_verify sample_client (Suc (calls (after_issue sample_loader w0)))
                 (cached_token cached_loader))"
    using sample_budgets(1) [of "after_verify cached_loader (after_issue sample_loader w0)"]
    by (simp add: verify_answer_def calls_simps)
  have "(0::int) \<le> 1700000000001" and "(1700000000001::int) \<le> 1700000000002"
    and "(1700000000002::int) < 1700003600000"
    by simp_all
  from ensureMandateValid_reuse_twice [OF t e this b1 b2] first t e
  show ?thesis by (simp add: cached_loader_token)
qed

text \<open>
  C8, as the code has it. The cache is never cleared. A call that issues nothing leaves
  the loader as it was. A call whose issue call throws leaves the loader as it was, the
  token that verification had refused included, and throws that error. Only an issue
  call that succeeds changes the cache: token and expiry are replaced together by those
  of the new mandate.
\<close>

theorem ensureMandateValid_cache_replaced_only_by_issue:
  "(case ensureMandateValid parseFloat c now this w of (res, this', w') \<Rightarrow>
      (\<not> issued w w' \<longrightarrow> this' = this)
    \<and> (issued w w' \<longrightarrow>
         (case issue_answer c this (calls w' - 1) of
            Inl e \<Rightarrow> res = Inl e \<and> this' = this
          | Inr m \<Rightarrow> this' = with_mandate m this)))"
proof -
  obtain res this' w' where run: "ensureMandateValid parseFloat c now this w = (res, this', w')"
    by (cases "ensureMandateValid parseFloat c now this w") auto
  have kept: "\<And>n. renewal_outcome c this n res this' \<Longrightarrow>
      (case issue_answer c this n of
         Inl e \<Rightarrow> res = Inl e \<and> this' = this
       | Inr m \<Rightarrow> this' = with_mandate m this)"
    by (auto simp: renewal_outcome_def split: sum.splits)
  consider (unverified) "cache_absent this \<or> locally_expired now this"
    | (renewed) "\<not> (cache_absent this \<or> locally_expired now this)"
        "\<not> budget_above_dust parseFloat (verify_answer c this w)"
    | (reused) "\<not> (cache_absent this \<or> locally_expired now this)"
        "budget_above_dust parseFloat (verify_answer c this w)"
    by blast
  then have "(\<not> issued w w' \<longrightarrow> this' = this)
    \<and> (issued w w' \<longrightarrow>
         (case issue_answer c this (calls w' - 1) of
            Inl e \<Rightarrow> res = Inl e \<and> this' = this
          | Inr m \<Rightarrow> this' = with_mandate m this))"
  proof cases
    case unverified
    note w' = ensure_outcome_unverified(1) [OF run unverified]
    note ro = ensure_outcome_unverified(2) [OF run unverified]
    show ?thesis using kept [OF ro] by (simp add: w' issued_simps calls_simps)
  next
    case renewed
    note w' = ensure_outcome_renewed(1) [OF run renewed]
    note ro = ensure_outcome_renewed(2) [OF run renewed]
    show ?thesis using kept [OF ro] by (simp add: w' issued_simps calls_simps)
  next
    case reused
    note w' = ensure_outcome_reused(1) [OF run reused]
    note t = ensure_outcome_reused(3) [OF run reused]
    show ?thesis by (simp add: w' t issued_simps)
  qed
  then show ?thesis unfolding run prod.case .
qed

theorem ensureMandateValid_cache_replaced_only_by_issue_witness:
  "issued w0 (snd (snd (ensureMandateValid sample_parseFloat exhausted_client 1700000000000
                          cached_loader w0)))
   \<and> fst (ensureMandateValid sample_parseFloat exhausted_client 1700000000000 cached_loader w0)
       = Inl (MandateError ''Failed to issue mandate'' ''ISSUE_FAILED'')
   \<and> fst (snd (ensureMandateValid sample_parseFloat exhausted_client 1700000000000
                  cached_loader w0)) = cached_loader"
  using ensureMandateValid_cache_replaced_only_by_issue
          [where parseFloat = sample_parseFloat and c = exhausted_client
             and now = 1700000000000 and this = cached_loader and w = w0]
  by (simp add: exhausted_run issued_simps)

theorem ensureMandateValid_keeps_refused_token_counterexample:
  "budget_at_most_dust sample_parseFloat (verify_answer exhausted_client cached_loader w0)
   \<and> ensureMandateValid sample_parseFloat exhausted_client 1700000000000 cached_loader w0
       = (Inl (MandateError ''Failed to issue mandate'' ''ISSUE_FAILED''), cached_loader,
          after_issue cached_loader (after_verify cached_loader w0))
   \<and> cachedMandateToken cached_loader = Some sample_mandate
   \<and> mandateExpiresAt cached_loader = Some 1700003600000"
  using sample_budgets(3) [of w0] exhausted_run
  by (simp add: cached_loader_def)

end
